theory Spec2Isabelle
  imports Main "HOL-Library.Word"
begin

section \<open>The secure partition: the key store\<close>

text \<open>
  The secure side keeps five globals:
  \<^verbatim>\<open>
  blst_scalar sk;
  blst_scalar secret_keys_store[10];
  blst_scalar sk_sign;
  char public_keys_hex_store[960];
  int keystore_size = 0;
  \<close>
  A \<open>blst_scalar\<close> is a struct of 32 bytes \<open>b[32]\<close>; it is modelled as the list of
  its bytes. The arrays are lists of their declared length (10 scalars, 960 chars).
  \<open>keystore_size\<close> starts at 0 and is only ever incremented or set to 0, so it is a
  \<open>nat\<close>.
\<close>

type_synonym blst_scalar = "8 word list"

record keystore =
  sk :: blst_scalar
  secret_keys_store :: "blst_scalar list"
  sk_sign :: blst_scalar
  public_keys_hex_store :: string
  keystore_size :: nat

definition NUL :: char where
  "NUL = CHR 0x00"

definition zero_scalar :: blst_scalar where
  "zero_scalar = replicate 32 0"

text \<open>The globals as the C runtime initialises them (all zero).\<close>

definition keystore_init :: keystore where
  "keystore_init =
     \<lparr>sk = zero_scalar, secret_keys_store = replicate 10 zero_scalar,
      sk_sign = zero_scalar, public_keys_hex_store = replicate 960 NUL,
      keystore_size = 0\<rparr>"

text \<open>
  The shape the declarations give the state: array lengths, 32 bytes in every scalar,
  and a size within the capacity of the arrays. Inside it every index that the lookup and
  the listing of keys compute is in range.
\<close>

definition keystore_wf :: "keystore \<Rightarrow> bool" where
  "keystore_wf ks \<longleftrightarrow>
     length (secret_keys_store ks) = 10 \<and>
     list_all (\<lambda>s. length s = 32) (secret_keys_store ks) \<and>
     length (public_keys_hex_store ks) = 960 \<and>
     keystore_size ks \<le> 10"

definition get_keystore_size :: "keystore \<Rightarrow> nat" where
  "get_keystore_size ks = keystore_size ks"

text \<open>
  Where the C code writes or points outside an array, or computes a value that an
  \<open>int\<close> cannot hold, its behaviour is undefined: what happens depends on the build.
  The model stops there with a fault that names the array and the index. A function
  that can reach such a statement returns \<open>fault + result\<close>; \<open>Inl\<close> is not a value the
  C function returns, it marks the undefined statement.
\<close>

datatype fault = OutOfBounds string int | Unrepresentable

text \<open>
  \<^verbatim>\<open>
  void store_pk(char* public_key_hex){
      int cont = keystore_size - 1;
      for(int i = 0; i < 96; i++)
          public_keys_hex_store[i+96*cont] = public_key_hex[i];
  }
  \<close>
  The slot written is the one of the key inserted last. With an empty store \<open>cont\<close> is
  \<open>-1\<close> and the first write addresses \<open>public_keys_hex_store[-96]\<close>; with more than ten
  keys the writes lie behind the array. Both are faults.
\<close>

fun store_pk_loop :: "string \<Rightarrow> int \<Rightarrow> string \<Rightarrow> nat \<Rightarrow> fault + string" where
  "store_pk_loop pk cont store 0 = Inr store"
| "store_pk_loop pk cont store (Suc n) =
     (case store_pk_loop pk cont store n of
        Inl f \<Rightarrow> Inl f
      | Inr store' \<Rightarrow>
          (let idx = int n + 96 * cont
           in if 0 \<le> idx \<and> idx < int (length store') then Inr (store'[nat idx := pk ! n])
              else Inl (OutOfBounds ''public_keys_hex_store'' idx)))"

definition store_pk :: "string \<Rightarrow> keystore \<Rightarrow> fault + keystore" where
  "store_pk public_key_hex ks =
     (case store_pk_loop public_key_hex (int (keystore_size ks) - 1)
             (public_keys_hex_store ks) 96 of
        Inl f \<Rightarrow> Inl f
      | Inr store \<Rightarrow> Inr (ks\<lparr>public_keys_hex_store := store\<rparr>))"

text \<open>
  \<^verbatim>\<open>
  void getkeys(char* public_keys_hex_store_ns){
      for(int i = 0; i < keystore_size*96; i++)
          public_keys_hex_store_ns[i] = public_keys_hex_store[i];
  }
  \<close>
  The result is what the caller's buffer holds afterwards in its first
  \<open>keystore_size*96\<close> bytes.
\<close>

definition getkeys :: "keystore \<Rightarrow> string" where
  "getkeys ks = take (keystore_size ks * 96) (public_keys_hex_store ks)"

text \<open>
  \<open>pk_in_keystore\<close>. The inner loop compares 96 characters and sets the flag \<open>c\<close> at
  the first difference:
  \<^verbatim>\<open>
  for(int x = 0; x < 96; x++){
      if(public_key_hex[x + offset] != public_keys_hex_store[x + cont]){ c = 1; break; }
  }
  \<close>
\<close>

function pk_cmp :: "string \<Rightarrow> nat \<Rightarrow> string \<Rightarrow> nat \<Rightarrow> nat \<Rightarrow> nat \<Rightarrow> nat" where
  "pk_cmp public_key_hex offset store cont c x =
     (if x < 96 then
        (if public_key_hex ! (x + offset) \<noteq> store ! (x + cont) then 1
         else pk_cmp public_key_hex offset store cont c (x + 1))
      else c)"
  by pat_completeness auto
termination
  by (relation "measure (\<lambda>(pk, offset, store, cont, c, x). 96 - x)") auto

text \<open>
  The outer loop, with the loop variables \<open>i\<close>, \<open>c\<close>, \<open>cont\<close> and \<open>ret\<close>:
  \<^verbatim>\<open>
  for(int i = 0; i < keystore_size; i++){
      ... inner loop ...
      if (c == 0){ sk_sign = secret_keys_store[i]; break; }
      else { if((i+1) < keystore_size){ cont += 96; c = 0; } else { ret = -1; } }
  }
  return ret;
  \<close>
\<close>

function pk_loop ::
  "string \<Rightarrow> nat \<Rightarrow> keystore \<Rightarrow> nat \<Rightarrow> nat \<Rightarrow> nat \<Rightarrow> int \<Rightarrow> int \<times> keystore" where
  "pk_loop public_key_hex offset ks i c cont ret =
     (if i < keystore_size ks then
        (let c' = pk_cmp public_key_hex offset (public_keys_hex_store ks) cont c 0
         in if c' = 0 then (ret, ks\<lparr>sk_sign := secret_keys_store ks ! i\<rparr>)
            else if i + 1 < keystore_size ks
              then pk_loop public_key_hex offset ks (i + 1) 0 (cont + 96) ret
              else pk_loop public_key_hex offset ks (i + 1) c' cont (- 1))
      else (ret, ks))"
  by pat_completeness auto
termination
  by (relation "measure (\<lambda>(pk, offset, ks, i, c, cont, ret). keystore_size ks - i)") auto

definition pk_in_keystore :: "string \<Rightarrow> nat \<Rightarrow> keystore \<Rightarrow> int \<times> keystore" where
  "pk_in_keystore public_key_hex offset ks =
     pk_loop public_key_hex offset ks 0 0 0 (if keystore_size ks = 0 then - 1 else 0)"

text \<open>
  \<^verbatim>\<open>
  void ikm_sk(char* info){
      unsigned char ikm[32];
      ... ikm is filled from the random number generator ...
      blst_keygen(&sk, ikm, sizeof(ikm), info, sizeof(info));
      secret_keys_store[keystore_size] = sk;
      keystore_size++;
  }
  \<close>
  \<open>blst_keygen\<close> belongs to the BLS library and the random bytes to the hardware: the
  key generator is a parameter and \<open>ikm\<close> an argument. There is no test of
  \<open>keystore_size\<close> against the array length: with ten keys stored the assignment
  writes \<open>secret_keys_store[10]\<close>, behind the array, which is a fault.
\<close>

definition ikm_sk ::
  "(8 word list \<Rightarrow> string \<Rightarrow> blst_scalar) \<Rightarrow> 8 word list \<Rightarrow> string \<Rightarrow> keystore \<Rightarrow>
   fault + keystore" where
  "ikm_sk blst_keygen ikm info ks =
     (let ks1 = ks\<lparr>sk := blst_keygen ikm info\<rparr>
      in if keystore_size ks1 < length (secret_keys_store ks1)
         then Inr (ks1\<lparr>secret_keys_store := (secret_keys_store ks1)[keystore_size ks1 := sk ks1],
                       keystore_size := keystore_size ks1 + 1\<rparr>)
         else Inl (OutOfBounds ''secret_keys_store'' (int (keystore_size ks1))))"

text \<open>
  \<^verbatim>\<open>
  void sign_pk(blst_p2* sig, blst_p2* hash){ blst_sign_pk_in_g1(sig, hash, &sk_sign); }
  \<close>
  The signing primitive is a parameter; the result is what it leaves in \<open>sig\<close>.
\<close>

definition sign_pk :: "('p2 \<Rightarrow> blst_scalar \<Rightarrow> 'p2) \<Rightarrow> 'p2 \<Rightarrow> keystore \<Rightarrow> 'p2" where
  "sign_pk blst_sign_pk_in_g1 hash ks = blst_sign_pk_in_g1 hash (sk_sign ks)"

text \<open>
  \<^verbatim>\<open>
  void reset(){
      memset(secret_keys_store, 0, sizeof(secret_keys_store));
      memset(public_keys_hex_store, 0, 960);
      keystore_size = 0;
  }
  \<close>
\<close>

definition reset :: "keystore \<Rightarrow> keystore" where
  "reset ks =
     ks\<lparr>secret_keys_store := replicate 10 zero_scalar,
        public_keys_hex_store := replicate 960 NUL,
        keystore_size := 0\<rparr>"

text \<open>
  \<open>import_sk\<close>. The inner loop compares the 32 bytes of a stored scalar with the
  imported one:
  \<^verbatim>\<open>
  for(int x = 0; x < 32; x++){
      if(secret_keys_store[i].b[x] != (*sk_imp).b[x]){ c = 1; break; }
  }
  \<close>
\<close>

function sk_cmp :: "blst_scalar \<Rightarrow> blst_scalar \<Rightarrow> nat \<Rightarrow> nat \<Rightarrow> nat" where
  "sk_cmp stored sk_imp c x =
     (if x < 32 then
        (if stored ! x \<noteq> sk_imp ! x then 1 else sk_cmp stored sk_imp c (x + 1))
      else c)"
  by pat_completeness auto
termination
  by (relation "measure (\<lambda>(stored, sk_imp, c, x). 32 - x)") auto

text \<open>
  \<^verbatim>\<open>
  for(int i = 0; i < keystore_size; i++){
      ... inner loop ...
      if (c == 0){ ret = -1; break; }
      else {
          if((i+1) < keystore_size){ c = 0; }
          else { secret_keys_store[keystore_size] = *sk_imp; keystore_size++;
                 sk = *sk_imp; break; }
      }
  }
  \<close>
\<close>

text \<open>
  The three statements that append the imported key. The first writes
  \<open>secret_keys_store[keystore_size]\<close>; with ten keys stored that is behind the array.
\<close>

definition import_append :: "blst_scalar \<Rightarrow> keystore \<Rightarrow> fault + keystore" where
  "import_append sk_imp ks =
     (if keystore_size ks < length (secret_keys_store ks)
      then Inr (ks\<lparr>secret_keys_store := (secret_keys_store ks)[keystore_size ks := sk_imp],
                   keystore_size := keystore_size ks + 1,
                   sk := sk_imp\<rparr>)
      else Inl (OutOfBounds ''secret_keys_store'' (int (keystore_size ks))))"

function import_loop ::
  "blst_scalar \<Rightarrow> keystore \<Rightarrow> nat \<Rightarrow> nat \<Rightarrow> int \<Rightarrow> fault + int \<times> keystore" where
  "import_loop sk_imp ks i c ret =
     (if i < keystore_size ks then
        (let c' = sk_cmp (secret_keys_store ks ! i) sk_imp c 0
         in if c' = 0 then Inr (- 1, ks)
            else if i + 1 < keystore_size ks then import_loop sk_imp ks (i + 1) 0 ret
            else (case import_append sk_imp ks of
                    Inl f \<Rightarrow> Inl f
                  | Inr ks' \<Rightarrow> Inr (ret, ks')))
      else Inr (ret, ks))"
  by pat_completeness auto
termination
  by (relation "measure (\<lambda>(sk_imp, ks, i, c, ret). keystore_size ks - i)") auto

definition import_sk :: "blst_scalar \<Rightarrow> keystore \<Rightarrow> fault + int \<times> keystore" where
  "import_sk sk_imp ks =
     (if keystore_size ks = 0
      then (case import_append sk_imp ks of
              Inl f \<Rightarrow> Inl f
            | Inr ks' \<Rightarrow> Inr (0, ks'))
      else import_loop sk_imp ks 0 0 0)"

section \<open>The C string functions the HTTP layer calls\<close>

text \<open>
  A \<open>char*\<close> is modelled as the list of the bytes from the pointer on. A C string ends
  at its first \<open>NUL\<close>; the end of the list counts as one, too, which is how a string
  literal (whose terminator is not written in the list) and a buffer that the caller
  has terminated are read.
\<close>

definition cstr :: "string \<Rightarrow> string" where
  "cstr s = takeWhile (\<lambda>c. c \<noteq> NUL) s"

definition strlen :: "string \<Rightarrow> nat" where
  "strlen s = length (cstr s)"

text \<open>
  \<open>strncmp\<close> compares at most \<open>n\<close> characters and stops after a \<open>NUL\<close>. The result
  is 0 for equal strings and the sign of the first difference otherwise.
\<close>

definition char_at :: "string \<Rightarrow> char" where
  "char_at s = (case s of [] \<Rightarrow> NUL | c # _ \<Rightarrow> c)"

fun strncmp :: "string \<Rightarrow> string \<Rightarrow> nat \<Rightarrow> int" where
  "strncmp s1 s2 0 = 0"
| "strncmp s1 s2 (Suc n) =
     (if char_at s1 \<noteq> char_at s2
        then (if (of_char (char_at s1) :: nat) < of_char (char_at s2) then - 1 else 1)
      else if char_at s1 = NUL then 0
      else strncmp (tl s1) (tl s2) n)"

definition strcmp :: "string \<Rightarrow> string \<Rightarrow> int" where
  "strcmp s1 s2 = strncmp s1 s2 (Suc (max (length s1) (length s2)))"

text \<open>
  \<open>strncpy dst src n\<close> writes exactly \<open>n\<close> bytes: the characters of \<open>src\<close> up to its
  terminator, then \<open>NUL\<close>s. The result is the \<open>n\<close> bytes written.
\<close>

definition strncpy :: "string \<Rightarrow> nat \<Rightarrow> string" where
  "strncpy src n = take n (cstr src) @ replicate (n - length (cstr src)) NUL"

text \<open>
  \<open>strcpy\<close>, \<open>strcat\<close> and \<open>strncat\<close> give the C string the destination holds
  afterwards. (Every destination in this program is large enough for what is written.)
\<close>

definition strcpy :: "string \<Rightarrow> string" where
  "strcpy src = cstr src"

definition strcat :: "string \<Rightarrow> string \<Rightarrow> string" where
  "strcat dst src = cstr dst @ cstr src"

definition strncat :: "string \<Rightarrow> string \<Rightarrow> nat \<Rightarrow> string" where
  "strncat dst src n = cstr dst @ take n (cstr src)"

definition strndup :: "string \<Rightarrow> nat \<Rightarrow> string" where
  "strndup s n = take n (cstr s)"

text \<open>
  \<open>strstr\<close> and \<open>strchr\<close> return a pointer into the string or \<open>NULL\<close>: here the
  offset of the first occurrence, or \<open>None\<close>. The needles of this program are literals
  without \<open>NUL\<close>, and the character looked for is never \<open>NUL\<close>.
\<close>

fun strstr :: "string \<Rightarrow> string \<Rightarrow> nat option" where
  "strstr [] needle = (if needle = [] then Some 0 else None)"
| "strstr (c # cs) needle =
     (if take (length needle) (cstr (c # cs)) = needle then Some 0
      else if c = NUL then None
      else map_option Suc (strstr cs needle))"

fun strchr :: "string \<Rightarrow> char \<Rightarrow> nat option" where
  "strchr [] ch = None"
| "strchr (c # cs) ch =
     (if c = ch then Some 0
      else if c = NUL then None
      else map_option Suc (strchr cs ch))"

text \<open>
  An \<open>int\<close> has 32 bits. A computation whose mathematical result lies outside its
  range (signed overflow, or a number that \<open>atoi\<close> cannot represent) is undefined in
  C, and a fault here.
\<close>

definition INT_MAX :: int where "INT_MAX = 2147483647"
definition INT_MIN :: int where "INT_MIN = - 2147483648"

definition int_result :: "int \<Rightarrow> fault + int" where
  "int_result v = (if INT_MIN \<le> v \<and> v \<le> INT_MAX then Inr v else Inl Unrepresentable)"

text \<open>\<open>atoi\<close>: optional white space, an optional sign, then decimal digits.\<close>

definition isspace :: "char \<Rightarrow> bool" where
  "isspace c \<longleftrightarrow> c \<in> set [CHR '' '', CHR 0x09, CHR 0x0A, CHR 0x0B, CHR 0x0C, CHR 0x0D]"

definition isdigit :: "char \<Rightarrow> bool" where
  "isdigit c \<longleftrightarrow> (48 :: nat) \<le> of_char c \<and> (of_char c :: nat) \<le> 57"

fun atoi_digits :: "string \<Rightarrow> int \<Rightarrow> int" where
  "atoi_digits [] acc = acc"
| "atoi_digits (c # cs) acc =
     (if isdigit c then atoi_digits cs (acc * 10 + (of_char c - 48)) else acc)"

definition atoi :: "string \<Rightarrow> fault + int" where
  "atoi s =
     int_result
       (let t = dropWhile isspace s
        in if t \<noteq> [] \<and> hd t = CHR ''-'' then - atoi_digits (tl t) 0
           else if t \<noteq> [] \<and> hd t = CHR ''+'' then atoi_digits (tl t) 0
           else atoi_digits t 0)"

text \<open>\<open>sprintf(s, "%d", n)\<close>: the decimal digits of \<open>n\<close>, with a minus sign if negative.\<close>

fun digits :: "nat \<Rightarrow> string" where
  "digits n = (if n < 10 then [char_of (48 + n)] else digits (n div 10) @ [char_of (48 + n mod 10)])"

definition sprintf_d :: "int \<Rightarrow> string" where
  "sprintf_d n = (if n < 0 then CHR ''-'' # digits (nat (- n)) else digits (nat n))"

section \<open>The HTTP layer: constants and data\<close>

definition MAXKeys :: nat where "MAXKeys = 10"
definition keySize :: nat where "keySize = 96"

definition SCRYPTTYPE :: int where "SCRYPTTYPE = 1"
definition PBKDF2TYPE :: int where "PBKDF2TYPE = 2"

definition sign :: int where "sign = 0"
definition upcheck :: int where "upcheck = 1"
definition getKeys :: int where "getKeys = 2"
definition importKey :: int where "importKey = 4"

definition textPlain :: int where "textPlain = 0"
definition applicationJson :: int where "applicationJson = 1"

definition CR :: char where "CR = CHR 0x0D"
definition LF :: char where "LF = CHR 0x0A"
definition DQUOTE :: char where "DQUOTE = CHR 0x22"
definition CRLF :: string where "CRLF = [CR, LF]"

definition upcheckStr :: string where "upcheckStr = ''/upcheck''"
definition getKeysStr :: string where "getKeysStr = ''/api/v1/eth2/publicKeys''"
definition signRequestStr :: string where "signRequestStr = ''/api/v1/eth2/sign/0x''"
definition contentLengthStr :: string where "contentLengthStr = ''content-length''"
definition keymanagerStr :: string where "keymanagerStr = ''/eth/v1/keystores''"
definition acceptStr :: string where "acceptStr = ''Accept''"
definition textPlainStr :: string where "textPlainStr = ''text/plain''"
definition applicationJsonStr :: string where "applicationJsonStr = ''application/json''"

definition upcheckResponse :: string where
  "upcheckResponse =
     ''HTTP/1.1 200 OK'' @ CRLF @ ''content-type: text/plain; charset=utf-8'' @ CRLF @
     ''content-length: 0'' @ CRLF @ CRLF"

definition getKeysResponse :: string where
  "getKeysResponse =
     ''HTTP/1.1 200 OK'' @ CRLF @ ''Content-Type: application/json'' @ CRLF @
     ''Content-Length: ''"

definition signResponse :: string where
  "signResponse =
     ''HTTP/1.1 200 OK'' @ CRLF @ ''Content-Type: application/json'' @ CRLF @
     ''Content-Length: ''"

definition signResponseText :: string where
  "signResponseText =
     ''HTTP/1.1 200 OK'' @ CRLF @ ''Content-Type: text/plain'' @ CRLF @
     ''Content-Length: ''"


definition pknf :: string where
  "pknf =
     ''HTTP/1.1 404 Public key not found'' @ CRLF @ ''Content-Type: application/json'' @ CRLF @
     ''Content-Length: 0'' @ CRLF @ CRLF"

text \<open>
  \<^verbatim>\<open>
  struct boardRequest{
      int method; int acceptType; char* json; char* keyToSign;
      char publicKeys[MAXKeys][keySize]; int nKeys; int jsonLen;
  };
  \<close>
  \<open>json\<close> is \<open>None\<close> for \<open>NULL\<close> and otherwise the bytes from the pointer on.
  \<open>keyToSign\<close> is the caller's buffer. \<open>publicKeys\<close> is a list of ten rows of 96
  characters.
\<close>

record boardRequest =
  "method" :: int
  acceptType :: int
  json :: "string option"
  keyToSign :: string
  publicKeys :: "string list"
  nKeys :: nat
  jsonLen :: int

text \<open>
  A header as picohttpparser returns it: \<open>name\<close> with \<open>name_len\<close> and \<open>value\<close> with
  \<open>value_len\<close>, pointers into the request buffer. The pointer and its length are one
  list here; \<open>name\<close> is \<open>NULL\<close> (here \<open>None\<close>, with length 0) for the continuation
  line of a folded header.
\<close>

record phr_header =
  hdr_name :: "string option"
  hdr_value :: string

definition name_len :: "phr_header \<Rightarrow> nat" where
  "name_len h = (case hdr_name h of None \<Rightarrow> 0 | Some n \<Rightarrow> length n)"

definition value_len :: "phr_header \<Rightarrow> nat" where
  "value_len h = length (hdr_value h)"

text \<open>
  \<^verbatim>\<open>
  struct httpRequest{
      char* method; char* path; char* body; int acceptType; int requestLen;
      size_t methodLen; size_t pathLen; size_t bodyLen; int minorVersion;
      struct phr_header headers[MAXHeaders]; size_t numHeaders;
  };
  \<close>
  \<open>method\<close> with \<open>methodLen\<close>, \<open>path\<close> with \<open>pathLen\<close> and \<open>headers\<close> with
  \<open>numHeaders\<close> are one list each. \<open>bodyLen\<close> holds the \<open>int\<close> that \<open>atoi\<close>
  returned; the program reads it back only through a cast to \<open>int\<close>.
\<close>

record httpRequest =
  req_method :: string
  req_path :: string
  req_body :: "string option"
  req_acceptType :: int
  requestLen :: int
  bodyLen :: int
  minorVersion :: int
  headers :: "phr_header list"

section \<open>The HTTP layer: functions\<close>

text \<open>
  \<^verbatim>\<open>
  int copyKeys(struct boardRequest* request){
      int ksize = get_keystore_size();
      if(ksize == 0){ request->nKeys = 0; return -1; }
      else{
          char buffer[ksize][96];
          getkeys(buffer);
          request->nKeys = 0;
          for(int i = 0; i < ksize; i++){
              ++(request->nKeys);
              strncpy(request->publicKeys[i], buffer[i], 96);
          }
      }
      return 0;
  }
  \<close>
\<close>

function copyKeys_loop :: "string \<Rightarrow> nat \<Rightarrow> boardRequest \<Rightarrow> nat \<Rightarrow> boardRequest" where
  "copyKeys_loop buffer ksize request i =
     (if i < ksize then
        copyKeys_loop buffer ksize
          (request\<lparr>nKeys := nKeys request + 1,
                   publicKeys := (publicKeys request)[i := strncpy (take 96 (drop (96 * i) buffer)) 96]\<rparr>)
          (i + 1)
      else request)"
  by pat_completeness auto
termination
  by (relation "measure (\<lambda>(buffer, ksize, request, i). ksize - i)") auto

definition copyKeys :: "keystore \<Rightarrow> boardRequest \<Rightarrow> int \<times> boardRequest" where
  "copyKeys ks request =
     (let ksize = get_keystore_size ks
      in if ksize = 0 then (- 1, request\<lparr>nKeys := 0\<rparr>)
         else (0, copyKeys_loop (getkeys ks) ksize (request\<lparr>nKeys := 0\<rparr>) 0))"

text \<open>
  \<^verbatim>\<open>
  int checkKey(struct boardRequest* request){
      if(copyKeys(request) == -1){ return -1; }
      else{
          for(int i = 0; i < request->nKeys; ++i){
              if(strncmp(request->keyToSign, request->publicKeys[i], keySize) == 0){ return 0; }
          }
      }
      return -1;
  }
  \<close>
\<close>

function checkKey_loop :: "boardRequest \<Rightarrow> nat \<Rightarrow> int" where
  "checkKey_loop request i =
     (if i < nKeys request then
        (if strncmp (keyToSign request) (publicKeys request ! i) keySize = 0 then 0
         else checkKey_loop request (i + 1))
      else - 1)"
  by pat_completeness auto
termination
  by (relation "measure (\<lambda>(request, i). nKeys request - i)") auto

definition checkKey :: "keystore \<Rightarrow> boardRequest \<Rightarrow> int \<times> boardRequest" where
  "checkKey ks request =
     (case copyKeys ks request of (r, request') \<Rightarrow>
        if r = - 1 then (- 1, request') else (checkKey_loop request' 0, request'))"

text \<open>
  \<open>getAcceptOptions\<close>. No function of the sources calls it: \<open>parseRequest\<close> calls
  \<open>getBody\<close> only and does not set \<open>acceptType\<close>. The loop looks for the first
  header that has no name or whose name is the six characters of \<open>acceptStr\<close>:
  \<^verbatim>\<open>
  for(acceptTypePosition = 0;
      (acceptTypePosition < (int) request->numHeaders) &&
      (request->headers[acceptTypePosition].name != NULL) &&
      !((request->headers[acceptTypePosition].name_len == acceptStrSize)
        && !(strncmp(acceptStr, request->headers[acceptTypePosition].name, acceptStrSize)));
      ++acceptTypePosition){}
  \<close>
\<close>

function getAcceptOptions_loop :: "phr_header list \<Rightarrow> nat \<Rightarrow> nat" where
  "getAcceptOptions_loop hs pos =
     (if pos < length hs \<and> hdr_name (hs ! pos) \<noteq> None \<and>
         \<not> (name_len (hs ! pos) = strlen acceptStr \<and>
            strncmp acceptStr (the (hdr_name (hs ! pos))) (strlen acceptStr) = 0)
      then getAcceptOptions_loop hs (pos + 1)
      else pos)"
  by pat_completeness auto
termination
  by (relation "measure (\<lambda>(hs, pos). length hs - pos)") auto

text \<open>
  \<^verbatim>\<open>
  if(acceptTypePosition < (int) request->numHeaders){
      if((request->headers[acceptTypePosition].value_len == (int) strlen(applicationJsonStr)) &&
         (strncmp(applicationJsonStr, request->headers[acceptTypePosition].value,
                  strlen(applicationJsonStr)) == 0) ||
         (request->headers[acceptTypePosition].value_len == 3) &&
         (strncmp("*/*", request->headers[acceptTypePosition].value, 3) == 0)){
          request->acceptType = applicationJson;
      }else{ request->acceptType = textPlain; }
  }else{ request->acceptType = textPlain; }
  \<close>
\<close>

definition getAcceptOptions :: "httpRequest \<Rightarrow> httpRequest" where
  "getAcceptOptions request =
     (let acceptTypePosition = getAcceptOptions_loop (headers request) 0
      in if acceptTypePosition < length (headers request) then
           (let h = headers request ! acceptTypePosition
            in if (value_len h = strlen applicationJsonStr \<and>
                   strncmp applicationJsonStr (hdr_value h) (strlen applicationJsonStr) = 0) \<or>
                  (value_len h = 3 \<and> strncmp ''*/*'' (hdr_value h) 3 = 0)
               then request\<lparr>req_acceptType := applicationJson\<rparr>
               else request\<lparr>req_acceptType := textPlain\<rparr>)
         else request\<lparr>req_acceptType := textPlain\<rparr>)"

text \<open>
  \<open>getBody\<close>. The loop stops at the first header that has no name, or whose name has 14
  characters and for which \<open>strncmp\<close> with \<open>contentLengthStr\<close> is non-zero (the source
  tests the result of \<open>strncmp\<close> as a truth value):
  \<^verbatim>\<open>
  for(bodyLengthPosition = 0;
      (bodyLengthPosition < (int) request->numHeaders) &&
      (request->headers[bodyLengthPosition].name != NULL) &&
      !((request->headers[bodyLengthPosition].name_len == contentLengthStrSize)
        && (strncmp(contentLengthStr, request->headers[bodyLengthPosition].name,
                    contentLengthStrSize)));
      ++bodyLengthPosition){}
  \<close>
\<close>

function getBody_loop :: "phr_header list \<Rightarrow> nat \<Rightarrow> nat" where
  "getBody_loop hs pos =
     (if pos < length hs \<and> hdr_name (hs ! pos) \<noteq> None \<and>
         \<not> (name_len (hs ! pos) = strlen contentLengthStr \<and>
            strncmp contentLengthStr (the (hdr_name (hs ! pos))) (strlen contentLengthStr) \<noteq> 0)
      then getBody_loop hs (pos + 1)
      else pos)"
  by pat_completeness auto
termination
  by (relation "measure (\<lambda>(hs, pos). length hs - pos)") auto

text \<open>
  \<^verbatim>\<open>
  if(bodyLengthPosition < request->numHeaders){
      char bodyLenChar[(int) request->headers[bodyLengthPosition].value_len + 1];
      strncpy(bodyLenChar, request->headers[bodyLengthPosition].value, value_len);
      bodyLenChar[value_len] = '\0';
      request->bodyLen = (size_t) atoi(bodyLenChar);
      if((int) request->bodyLen > 0){
          request->body = buffer + (int) bufferSize - (int) request->bodyLen;
      }else{ request->body = NULL; }
  }
  \<close>
  The body pointer is \<open>bodyLen\<close> bytes before the end of the request. When \<open>bodyLen\<close>
  exceeds \<open>bufferSize\<close> the pointer lies before the buffer, which is a fault. When no
  header is selected, \<open>body\<close> and \<open>bodyLen\<close> keep what the uninitialised local held.
\<close>

definition getBody :: "string \<Rightarrow> nat \<Rightarrow> httpRequest \<Rightarrow> fault + httpRequest" where
  "getBody buffer bufferSize request =
     (let bodyLengthPosition = getBody_loop (headers request) 0
      in if bodyLengthPosition < length (headers request) then
           (let h = headers request ! bodyLengthPosition;
                bodyLenChar = strncpy (hdr_value h) (value_len h) @ [NUL]
            in case atoi bodyLenChar of
                 Inl f \<Rightarrow> Inl f
               | Inr n \<Rightarrow>
                   (let request' = request\<lparr>bodyLen := n\<rparr>
                    in if bodyLen request' > 0 then
                         (if bodyLen request' \<le> int bufferSize
                          then Inr (request'\<lparr>req_body :=
                                      Some (drop (nat (int bufferSize - bodyLen request')) buffer)\<rparr>)
                          else Inl (OutOfBounds ''buffer'' (int bufferSize - bodyLen request')))
                       else Inr (request'\<lparr>req_body := None\<rparr>)))
         else Inr request)"

section \<open>Collaborators outside the sources\<close>

text \<open>
  Modelled from the spec: the JSON tree that \<open>cJSON_Parse\<close> returns (the cJSON library
  is not among the sources). An item has a type and, by type, a number, a string or
  children; the children of an object carry their member names. The spec's import
  format names the members and types the code reads (\<open>crypto.kdf.function\<close>,
  \<open>crypto.kdf.params\<close>, \<open>crypto.checksum.message\<close>, \<open>crypto.cipher.params.iv\<close>,
  \<open>crypto.cipher.message\<close>, \<open>keystores\<close>, \<open>passwords\<close>, \<open>signingRoot\<close>).
\<close>

datatype cJSON =
    cJSON_Invalid
  | cJSON_False
  | cJSON_True
  | cJSON_NULL
  | cJSON_Number int
  | cJSON_String string
  | cJSON_Array "cJSON list"
  | cJSON_Object "(string \<times> cJSON) list"
  | cJSON_Raw string

text \<open>
  Modelled from the spec: \<open>cJSON_GetObjectItemCaseSensitive\<close> returns the first child
  whose member name equals the given one, and \<open>NULL\<close> for an item without named
  children.
\<close>

fun cJSON_GetObjectItemCaseSensitive :: "cJSON \<Rightarrow> string \<Rightarrow> cJSON option" where
  "cJSON_GetObjectItemCaseSensitive (cJSON_Object members) name = map_of members name"
| "cJSON_GetObjectItemCaseSensitive item name = None"

text \<open>The chain \<open>item->child\<close>, \<open>->next\<close>, \<open>->next\<close>, ... as a list.\<close>

fun children :: "cJSON \<Rightarrow> cJSON list" where
  "children (cJSON_Array items) = items"
| "children (cJSON_Object members) = map snd members"
| "children item = []"

fun valuestring :: "cJSON \<Rightarrow> string option" where
  "valuestring (cJSON_String s) = Some s"
| "valuestring (cJSON_Raw s) = Some s"
| "valuestring item = None"

fun valueint :: "cJSON \<Rightarrow> int" where
  "valueint (cJSON_Number n) = n"
| "valueint item = 0"

fun is_Object :: "cJSON \<Rightarrow> bool" where
  "is_Object (cJSON_Object members) = True"
| "is_Object item = False"

fun is_Number :: "cJSON \<Rightarrow> bool" where
  "is_Number (cJSON_Number n) = True"
| "is_Number item = False"

fun is_String :: "cJSON \<Rightarrow> bool" where
  "is_String (cJSON_String s) = True"
| "is_String item = False"

text \<open>
  What picohttpparser's \<open>phr_parse_request\<close> hands back: its return value (the number
  of bytes consumed, \<open>-1\<close> for a parse error, \<open>-2\<close> for an incomplete request) and the
  method, path, minor version and headers it found.
\<close>

record phr_result =
  phr_ret :: int
  phr_method :: string
  phr_path :: string
  phr_minor_version :: int
  phr_headers :: "phr_header list"

text \<open>
  The functions of the repository that are called here and defined elsewhere
  (\<open>picohttpparser.h\<close>, \<open>cJSON.h\<close>, \<open>common.h\<close>) are parameters, collected in one
  record, together with the error constant \<open>BADJSONFORMAT\<close> of \<open>common.h\<close>:
  \<^item> \<open>cJSON_Parse\<close> maps the text of a body to its tree, or to \<open>NULL\<close>;
  \<^item> \<open>signature key msg\<close> returns its result code and what it wrote to \<open>signat\<close>; it
    runs on the key store, which it may change;
  \<^item> \<open>get_decryption_key_scrypt\<close> returns its result code and the contents of
    \<open>decryption_key\<close> afterwards;
  \<^item> \<open>verificate_password\<close> and \<open>get_private_key\<close> return their result code (the
    private key is written to a local of \<open>import_from_keystore\<close> that is never read).
  The last three are handed buffers only; they are functions of those.
\<close>

record collaborators =
  BADJSONFORMAT :: int
  phr_parse_request :: "string \<Rightarrow> nat \<Rightarrow> phr_result"
  cJSON_Parse :: "string \<Rightarrow> cJSON option"
  signature :: "string \<Rightarrow> string \<Rightarrow> keystore \<Rightarrow> int \<times> string \<times> keystore"
  get_decryption_key_scrypt ::
    "string \<Rightarrow> int \<Rightarrow> int \<Rightarrow> int \<Rightarrow> int \<Rightarrow> string \<Rightarrow> 8 word list \<Rightarrow> int \<times> 8 word list"
  verificate_password :: "string \<Rightarrow> string \<Rightarrow> 8 word list \<Rightarrow> int"
  get_private_key :: "string \<Rightarrow> string \<Rightarrow> 8 word list \<Rightarrow> int"

definition cJSON_Parse_ptr :: "collaborators \<Rightarrow> string option \<Rightarrow> cJSON option" where
  "cJSON_Parse_ptr env p = (case p of None \<Rightarrow> None | Some s \<Rightarrow> cJSON_Parse env (cstr s))"

section \<open>Parsing a request\<close>

text \<open>
  The size of \<open>size_t\<close> on the target (a 32-bit Cortex-M33): in
  \<open>bufferSize > explen\<close> the \<open>int\<close> is converted to \<open>size_t\<close>.
\<close>

definition size_t_of_int :: "int \<Rightarrow> nat" where
  "size_t_of_int n = nat (n mod 2 ^ 32)"

text \<open>
  The framing test at the head of \<open>parseRequest\<close>. \<open>Inr None\<close> means that the
  function goes on to parse; \<open>Inr (Some r)\<close> that it returns \<open>r\<close> at once.
  \<^verbatim>\<open>
  if((strncmp(buffer, "POST", 4) != 0) && (strncmp(buffer, "GET", 3) != 0)){
      return -1;
  }else if (strncmp(buffer, "POST", 4) == 0){
      char* p = strstr(buffer, "Content-Length: ");
      if(p != NULL){
          char* q = strchr(p, '\r');
          if(q != NULL){
              int clen = atoi(p + 16);
              int headlen = q - (char*) buffer;
              int explen = clen + 4 + headlen;
              if(bufferSize > explen){ return -1; }
              else if (bufferSize < explen){ return -2; }
          }else{
              if(bufferSize < 300){ return -2; }
              return -1;
          }
      }else{
          if(bufferSize < 300){ return -2; }
      }
  }else{
      char* p = strstr(buffer, "\r\n\r\n");
      if(p == NULL){
          if(bufferSize < 300){ return -2; }
          return -1;
      }
  }
  \<close>
\<close>

definition framing :: "string \<Rightarrow> nat \<Rightarrow> fault + int option" where
  "framing buffer bufferSize =
     (if strncmp buffer ''POST'' 4 \<noteq> 0 \<and> strncmp buffer ''GET'' 3 \<noteq> 0 then Inr (Some (- 1))
      else if strncmp buffer ''POST'' 4 = 0 then
        (case strstr buffer ''Content-Length: '' of
           Some p \<Rightarrow>
             (case strchr (drop p buffer) CR of
                Some q \<Rightarrow>
                  (case atoi (drop (p + 16) buffer) of
                     Inl f \<Rightarrow> Inl f
                   | Inr clen \<Rightarrow>
                       (let headlen = int (p + q)
                        in case int_result (clen + 4 + headlen) of
                             Inl f \<Rightarrow> Inl f
                           | Inr explen \<Rightarrow>
                               if bufferSize > size_t_of_int explen then Inr (Some (- 1))
                               else if bufferSize < size_t_of_int explen then Inr (Some (- 2))
                               else Inr None))
              | None \<Rightarrow> if bufferSize < 300 then Inr (Some (- 2)) else Inr (Some (- 1)))
         | None \<Rightarrow> if bufferSize < 300 then Inr (Some (- 2)) else Inr None)
      else
        (case strstr buffer (CRLF @ CRLF) of
           None \<Rightarrow> if bufferSize < 300 then Inr (Some (- 2)) else Inr (Some (- 1))
         | Some p \<Rightarrow> Inr None))"

text \<open>
  The rest of \<open>parseRequest\<close>: terminate the buffer, call picohttpparser, classify.
  \<open>request0\<close> is what the uninitialised local \<open>request\<close> holds on entry.
  \<^verbatim>\<open>
  buffer[bufferSize] = '\0';
  struct httpRequest request;
  request.requestLen = phr_parse_request(buffer, bufferSize, &request.method, ...);
  if(request.requestLen < 0){ return request.requestLen; }
  if((request.methodLen == 3) && (strncmp(request.method, "GET", 3) == 0)){
      if((request.pathLen == strlen(upcheckStr)) && (strncmp(request.path, upcheckStr, strlen(upcheckStr)) == 0)){
          reply->method = upcheck;
      }else if((request.pathLen == strlen(getKeysStr)) && (strncmp(request.path, getKeysStr, strlen(getKeysStr)) == 0)){
          reply->method = getKeys;
      }else{ return -3; }
  }else if((request.methodLen == 4) && (strncmp(request.method, "POST", 4) == 0)){
      getBody(buffer, bufferSize, &request);
      if((request.pathLen == (strlen(signRequestStr) + keySize)) && (strncmp(request.path, signRequestStr, strlen(signRequestStr)) == 0)){
          reply->keyToSign[0] = '0';
          reply->keyToSign[1] = 'x';
          strncpy(reply->keyToSign + 2, request.path + strlen(signRequestStr), keySize);
          reply->keyToSign[keySize + 2] = '\0';
          reply->json = request.body;
          reply->jsonLen = request.bodyLen;
          reply->method = sign;
      }else if((request.pathLen == strlen(keymanagerStr)) && (strncmp(request.path, keymanagerStr, strlen(keymanagerStr)) == 0)){
          reply->json = request.body;
          reply->jsonLen = request.bodyLen;
          reply->method = importKey;
      }else{ return -3; }
  }else{ return -3; }
  return 0;
  \<close>
\<close>

definition classify ::
  "collaborators \<Rightarrow> httpRequest \<Rightarrow> string \<Rightarrow> nat \<Rightarrow> boardRequest \<Rightarrow>
   fault + int \<times> boardRequest" where
  "classify env request0 buffer bufferSize reply =
     (let buffer' = buffer[bufferSize := NUL];
          r = phr_parse_request env buffer' bufferSize;
          request = request0\<lparr>requestLen := phr_ret r, req_method := phr_method r,
                       req_path := phr_path r, minorVersion := phr_minor_version r,
                       headers := phr_headers r\<rparr>
      in if requestLen request < 0 then Inr (requestLen request, reply)
         else if length (req_method request) = 3 \<and> strncmp (req_method request) ''GET'' 3 = 0 then
           (if length (req_path request) = strlen upcheckStr \<and>
               strncmp (req_path request) upcheckStr (strlen upcheckStr) = 0
              then Inr (0, reply\<lparr>method := upcheck\<rparr>)
            else if length (req_path request) = strlen getKeysStr \<and>
               strncmp (req_path request) getKeysStr (strlen getKeysStr) = 0
              then Inr (0, reply\<lparr>method := getKeys\<rparr>)
            else Inr (- 3, reply))
         else if length (req_method request) = 4 \<and> strncmp (req_method request) ''POST'' 4 = 0 then
           (case getBody buffer' bufferSize request of
              Inl f \<Rightarrow> Inl f
            | Inr request' \<Rightarrow>
                if length (req_path request') = strlen signRequestStr + keySize \<and>
                   strncmp (req_path request') signRequestStr (strlen signRequestStr) = 0
                  then Inr (0, reply\<lparr>keyToSign :=
                                    ''0x'' @
                                    strncpy (drop (strlen signRequestStr) (req_path request')) keySize @
                                    [NUL] @ drop (keySize + 3) (keyToSign reply),
                                  json := req_body request',
                                  jsonLen := bodyLen request',
                                  method := sign\<rparr>)
                else if length (req_path request') = strlen keymanagerStr \<and>
                   strncmp (req_path request') keymanagerStr (strlen keymanagerStr) = 0
                  then Inr (0, reply\<lparr>json := req_body request',
                                  jsonLen := bodyLen request',
                                  method := importKey\<rparr>)
                else Inr (- 3, reply))
         else Inr (- 3, reply))"

definition parseRequest ::
  "collaborators \<Rightarrow> httpRequest \<Rightarrow> string \<Rightarrow> nat \<Rightarrow> boardRequest \<Rightarrow>
   fault + int \<times> boardRequest" where
  "parseRequest env request0 buffer bufferSize reply =
     (case framing buffer bufferSize of
        Inl f \<Rightarrow> Inl f
      | Inr (Some r) \<Rightarrow> Inr (r, reply)
      | Inr None \<Rightarrow> classify env request0 buffer bufferSize reply)"

section \<open>Composing responses\<close>

text \<open>
  Each of these writes \<open>buffer\<close> and returns its length; the model returns the length
  and the string written.
  \<^verbatim>\<open>
  int upcheckResponseStr(char* buffer){ strcpy(buffer, upcheckResponse); return strlen(upcheckResponse); }
  int pknotfoundResponseStr(char* buffer){ strcpy(buffer, pknf); return strlen(pknf); }
  \<close>
\<close>

definition upcheckResponseStr :: "int \<times> string" where
  "upcheckResponseStr = (int (strlen upcheckResponse), strcpy upcheckResponse)"

definition pknotfoundResponseStr :: "int \<times> string" where
  "pknotfoundResponseStr = (int (strlen pknf), strcpy pknf)"

text \<open>
  \<^verbatim>\<open>
  int getKeysResponseStr(char* buffer, struct boardRequest* request){
      int jsonKeysSize = 6*request->nKeys - 1 + request->nKeys*keySize + 3;
      if(request->nKeys == 0){ jsonKeysSize = 3; }
      strcpy(buffer, getKeysResponse);
      char nKeysStr[100];
      sprintf(nKeysStr, "%d", jsonKeysSize);
      strcat(buffer, nKeysStr);
      strcat(buffer, "\n\n[\n");
      for(int i = 0; i < request->nKeys; ++i){
          strcat(buffer, "\"0x");
          strncat(buffer, request->publicKeys[i], keySize);
          strcat(buffer, "\"");
          if(i + 1 < request->nKeys){ strcat(buffer, ","); }
          strcat(buffer, "\n");
      }
      strcat(buffer, "]");
      return strlen(buffer);
  }
  \<close>
  A row \<open>publicKeys[i]\<close> has no terminator of its own; \<open>strncat\<close> with bound 96 reads
  the row and no further.
\<close>

function getKeysResponseStr_loop :: "boardRequest \<Rightarrow> string \<Rightarrow> nat \<Rightarrow> string" where
  "getKeysResponseStr_loop request buffer i =
     (if i < nKeys request then
        (let b1 = strcat buffer [DQUOTE, CHR ''0'', CHR ''x''];
             b2 = strncat b1 (publicKeys request ! i) keySize;
             b3 = strcat b2 [DQUOTE];
             b4 = (if i + 1 < nKeys request then strcat b3 '','' else b3);
             b5 = strcat b4 [LF]
         in getKeysResponseStr_loop request b5 (i + 1))
      else buffer)"
  by pat_completeness auto
termination
  by (relation "measure (\<lambda>(request, buffer, i). nKeys request - i)") auto

definition jsonKeysSize :: "boardRequest \<Rightarrow> int" where
  "jsonKeysSize request =
     (if nKeys request = 0 then 3
      else 6 * int (nKeys request) - 1 + int (nKeys request) * int keySize + 3)"

definition getKeysResponseStr :: "boardRequest \<Rightarrow> int \<times> string" where
  "getKeysResponseStr request =
     (let b0 = strcpy getKeysResponse;
          nKeysStr = sprintf_d (jsonKeysSize request);
          b1 = strcat b0 nKeysStr;
          b2 = strcat b1 [LF, LF, CHR ''['', LF];
          b3 = getKeysResponseStr_loop request b2 0;
          b4 = strcat b3 '']''
      in (int (strlen b4), b4))"

text \<open>
  \<^verbatim>\<open>
  int signResponseStr(char* buffer, struct boardRequest* request){
      cJSON* json = cJSON_Parse(request->json);
      if(json == NULL){ return -1; }
      cJSON* signingroot = cJSON_GetObjectItemCaseSensitive(json, "signingRoot");
      if((signingroot == NULL) || (signingroot->valuestring == NULL)){ return -1; }
      char* key = strndup(request->keyToSign, 96);
      char signat[MAXSizeEthereumSignature];
      if(signature(key, signingroot->valuestring, signat) != 0){ return -1; }
      char reply[256] = "";
      switch(request->acceptType){
          case textPlain:
              strcat(reply, "0x"); strncat(reply, signat, MAXSizeEthereumSignature);
              strcpy(buffer, signResponseText); break;
          case applicationJson:
              strcat(reply, "{\"signature\": \"0x"); strncat(reply, signat, 192);
              strcat(reply, "\"}"); strcpy(buffer, signResponse); break;
          default: return -1;
      }
      int signatureLen = strlen(reply);
      char signatureLenStr[100];
      sprintf(signatureLenStr, "%d", signatureLen);
      strcat(buffer, signatureLenStr); strcat(buffer, "\n\n"); strcat(buffer, reply);
      return strlen(buffer);
  }
  \<close>
  The result is the return value, the buffer afterwards and the key store (which the
  \<open>signature\<close> collaborator works on).
\<close>

definition signResponseStr ::
  "collaborators \<Rightarrow> string \<Rightarrow> boardRequest \<Rightarrow> keystore \<Rightarrow> int \<times> string \<times> keystore" where
  "signResponseStr env buffer request ks =
     (case cJSON_Parse_ptr env (json request) of
        None \<Rightarrow> (- 1, buffer, ks)
      | Some j \<Rightarrow>
          (case cJSON_GetObjectItemCaseSensitive j ''signingRoot'' of
             None \<Rightarrow> (- 1, buffer, ks)
           | Some signingroot \<Rightarrow>
               (case valuestring signingroot of
                  None \<Rightarrow> (- 1, buffer, ks)
                | Some root \<Rightarrow>
                    (case signature env (strndup (keyToSign request) 96) root ks of
                       (r, signat, ks') \<Rightarrow>
                         if r \<noteq> 0 then (- 1, buffer, ks')
                         else if acceptType request = textPlain \<or> acceptType request = applicationJson then
                           (let reply =
                                  (if acceptType request = textPlain
                                   then strncat (strcat [] ''0x'') signat 192
                                   else strcat
                                          (strncat
                                             (strcat []
                                                ([CHR ''{'', DQUOTE] @ ''signature'' @
                                                 [DQUOTE, CHR '':'', CHR '' '', DQUOTE] @ ''0x''))
                                             signat 192)
                                          [DQUOTE, CHR ''}'']);
                                b0 = (if acceptType request = textPlain
                                      then strcpy signResponseText else strcpy signResponse);
                                b1 = strcat b0 (sprintf_d (int (strlen reply)));
                                b2 = strcat b1 [LF, LF];
                                b3 = strcat b2 reply
                            in (int (strlen b3), b3, ks'))
                         else (- 1, buffer, ks')))))"

section \<open>Importing encrypted keystores\<close>

text \<open>
  \<open>get_decryption_key_encryption_type\<close> returns an error code and leaves the type in
  \<open>*type\<close>; \<open>type0\<close> is what the caller's uninitialised \<open>type\<close> held, returned as it is
  on the error paths.
  \<^verbatim>\<open>
  if(keystore == NULL || keystore->type != cJSON_Object){ return BADJSONFORMAT; }
  cJSON* crypto = cJSON_GetObjectItemCaseSensitive(keystore, "crypto");
  if(crypto == NULL){ return BADJSONFORMAT; }
  cJSON* kdf = cJSON_GetObjectItemCaseSensitive(crypto, "kdf");
  if(kdf == NULL){ return BADJSONFORMAT; }
  cJSON* json_function = cJSON_GetObjectItemCaseSensitive(kdf, "function");
  if(json_function == NULL || json_function->type != cJSON_String){ return BADJSONFORMAT; }
  char* function = json_function->valuestring;
  if(strcmp("pbkdf2", function) == 0){ *type = PBKDF2TYPE; }
  else if(strcmp("scrypt", function) == 0){ *type = SCRYPTTYPE; }
  else{ return -1; }
  return 0;
  \<close>
\<close>

definition get_item :: "cJSON option \<Rightarrow> string \<Rightarrow> cJSON option" where
  "get_item item name = (case item of None \<Rightarrow> None | Some j \<Rightarrow> cJSON_GetObjectItemCaseSensitive j name)"

definition typed :: "(cJSON \<Rightarrow> bool) \<Rightarrow> cJSON option \<Rightarrow> bool" where
  "typed is_type item = (case item of None \<Rightarrow> False | Some j \<Rightarrow> is_type j)"

definition get_decryption_key_encryption_type ::
  "collaborators \<Rightarrow> cJSON option \<Rightarrow> int \<Rightarrow> int \<times> int" where
  "get_decryption_key_encryption_type env keystore type0 =
     (if \<not> typed is_Object keystore then (BADJSONFORMAT env, type0)
      else let crypto = get_item keystore ''crypto'' in
      if crypto = None then (BADJSONFORMAT env, type0)
      else let kdf = get_item crypto ''kdf'' in
      if kdf = None then (BADJSONFORMAT env, type0)
      else let json_function = get_item kdf ''function'' in
      if \<not> typed is_String json_function then (BADJSONFORMAT env, type0)
      else let function = the (valuestring (the json_function)) in
      if strcmp ''pbkdf2'' function = 0 then (0, PBKDF2TYPE)
      else if strcmp ''scrypt'' function = 0 then (0, SCRYPTTYPE)
      else (- 1, type0))"

text \<open>
  \<open>get_decryption_key_pbkdf2_params\<close> reads \<open>dklen\<close>, \<open>c\<close>, \<open>prf\<close> and \<open>salt\<close> and
  returns 0; the call of the key derivation is commented out in the source:
  \<^verbatim>\<open>
  ... checks of keystore, crypto, kdf, params ...
  json_dklen = cJSON_GetObjectItemCaseSensitive(params, "dklen");
  if(json_dklen == NULL || json_dklen->type != cJSON_Number){ return BADJSONFORMAT; }
  int dklen = json_dklen->valueint;
  json_c = cJSON_GetObjectItemCaseSensitive(params, "c");
  if(json_c == NULL || json_c->type != cJSON_Number){ return BADJSONFORMAT; }
  int c = json_c->valueint;
  cJSON* json_prf = cJSON_GetObjectItemCaseSensitive(params, "prf");
  if(json_prf == NULL || json_prf->type != cJSON_String){ return BADJSONFORMAT; }
  char* prf = json_prf->valuestring;
  cJSON* json_salt_str = cJSON_GetObjectItemCaseSensitive(params, "salt");
  if(json_salt_str == NULL || json_salt_str->type != cJSON_String){ return BADJSONFORMAT; }
  char* salt_str = json_salt_str->valuestring;
  //return get_decryption_key_pbkdf2(password, dklen, c, prf, salt_str, decryption_key);
  return 0;
  \<close>
  The result is the return value and the contents of \<open>decryption_key\<close> afterwards.
\<close>

definition get_decryption_key_pbkdf2_params ::
  "collaborators \<Rightarrow> cJSON option \<Rightarrow> string \<Rightarrow> 8 word list \<Rightarrow> int \<times> 8 word list" where
  "get_decryption_key_pbkdf2_params env keystore password decryption_key =
     (if \<not> typed is_Object keystore then (BADJSONFORMAT env, decryption_key)
      else let crypto = get_item keystore ''crypto'' in
      if crypto = None then (BADJSONFORMAT env, decryption_key)
      else let kdf = get_item crypto ''kdf'' in
      if kdf = None then (BADJSONFORMAT env, decryption_key)
      else let params = get_item kdf ''params'' in
      if params = None then (BADJSONFORMAT env, decryption_key)
      else if \<not> typed is_Number (get_item params ''dklen'') then (BADJSONFORMAT env, decryption_key)
      else if \<not> typed is_Number (get_item params ''c'') then (BADJSONFORMAT env, decryption_key)
      else if \<not> typed is_String (get_item params ''prf'') then (BADJSONFORMAT env, decryption_key)
      else if \<not> typed is_String (get_item params ''salt'') then (BADJSONFORMAT env, decryption_key)
      else (0, decryption_key))"

text \<open>
  \<open>get_decryption_key_scrypt_params\<close> reads \<open>dklen\<close>, \<open>n\<close>, \<open>r\<close>, \<open>p\<close> and \<open>salt\<close>
  in the same way and ends in
  \<^verbatim>\<open>
  return get_decryption_key_scrypt(password, dklen, n, r, p, salt_str, decryption_key);
  \<close>
\<close>

definition get_decryption_key_scrypt_params ::
  "collaborators \<Rightarrow> cJSON option \<Rightarrow> string \<Rightarrow> 8 word list \<Rightarrow> int \<times> 8 word list" where
  "get_decryption_key_scrypt_params env keystore password decryption_key =
     (if \<not> typed is_Object keystore then (BADJSONFORMAT env, decryption_key)
      else let crypto = get_item keystore ''crypto'' in
      if crypto = None then (BADJSONFORMAT env, decryption_key)
      else let kdf = get_item crypto ''kdf'' in
      if kdf = None then (BADJSONFORMAT env, decryption_key)
      else let params = get_item kdf ''params'' in
      if params = None then (BADJSONFORMAT env, decryption_key)
      else let json_dklen = get_item params ''dklen'' in
      if \<not> typed is_Number json_dklen then (BADJSONFORMAT env, decryption_key)
      else let json_n = get_item params ''n'' in
      if \<not> typed is_Number json_n then (BADJSONFORMAT env, decryption_key)
      else let json_r = get_item params ''r'' in
      if \<not> typed is_Number json_r then (BADJSONFORMAT env, decryption_key)
      else let json_p = get_item params ''p'' in
      if \<not> typed is_Number json_p then (BADJSONFORMAT env, decryption_key)
      else let json_salt_str = get_item params ''salt'' in
      if \<not> typed is_String json_salt_str then (BADJSONFORMAT env, decryption_key)
      else get_decryption_key_scrypt env password
             (valueint (the json_dklen)) (valueint (the json_n)) (valueint (the json_r))
             (valueint (the json_p)) (the (valuestring (the json_salt_str))) decryption_key)"

text \<open>
  \<^verbatim>\<open>
  int verificate_password_params(cJSON* keystore, unsigned char* decryption_key){
      ... checks of keystore, crypto ...
      cJSON* checksum = cJSON_GetObjectItemCaseSensitive(crypto, "checksum");
      if(checksum == NULL){ return BADJSONFORMAT; }
      cJSON* cipher = cJSON_GetObjectItemCaseSensitive(crypto, "cipher");
      if(cipher == NULL){ return BADJSONFORMAT; }
      cJSON* json_checksum_message = cJSON_GetObjectItemCaseSensitive(checksum, "message");
      if(json_checksum_message == NULL || json_checksum_message->type != cJSON_String){ return BADJSONFORMAT; }
      cJSON* json_message_cipher = cJSON_GetObjectItemCaseSensitive(cipher, "message");
      if(json_message_cipher == NULL || json_message_cipher->type != cJSON_String){ return BADJSONFORMAT; }
      return verificate_password(checksum_message_hex, cipher_message_hex, decryption_key);
  }
  \<close>
\<close>

definition verificate_password_params :: "collaborators \<Rightarrow> cJSON option \<Rightarrow> 8 word list \<Rightarrow> int" where
  "verificate_password_params env keystore decryption_key =
     (if \<not> typed is_Object keystore then BADJSONFORMAT env
      else let crypto = get_item keystore ''crypto'' in
      if crypto = None then BADJSONFORMAT env
      else let checksum = get_item crypto ''checksum'' in
      if checksum = None then BADJSONFORMAT env
      else let cipher = get_item crypto ''cipher'' in
      if cipher = None then BADJSONFORMAT env
      else let json_checksum_message = get_item checksum ''message'' in
      if \<not> typed is_String json_checksum_message then BADJSONFORMAT env
      else let json_message_cipher = get_item cipher ''message'' in
      if \<not> typed is_String json_message_cipher then BADJSONFORMAT env
      else verificate_password env (the (valuestring (the json_checksum_message)))
             (the (valuestring (the json_message_cipher))) decryption_key)"

text \<open>
  \<^verbatim>\<open>
  int get_private_key_params(cJSON* keystore, unsigned char* decryption_key, char* private_key){
      ... checks of keystore, crypto ...
      cJSON* cipher = cJSON_GetObjectItemCaseSensitive(crypto, "cipher");
      if(cipher == NULL){ return BADJSONFORMAT; }
      cJSON* params = cJSON_GetObjectItemCaseSensitive(cipher, "params");
      if(params == NULL){ return BADJSONFORMAT; }
      cJSON* json_iv_str = cJSON_GetObjectItemCaseSensitive(params, "iv");
      if(json_iv_str == NULL || json_iv_str->type != cJSON_String){ return BADJSONFORMAT; }
      cJSON* json_cipher_message = cJSON_GetObjectItemCaseSensitive(cipher, "message");
      if(json_cipher_message == NULL || json_cipher_message->type != cJSON_String){ return BADJSONFORMAT; }
      return get_private_key(cipher_message, iv_str, decryption_key, private_key);
  }
  \<close>
\<close>

definition get_private_key_params :: "collaborators \<Rightarrow> cJSON option \<Rightarrow> 8 word list \<Rightarrow> int" where
  "get_private_key_params env keystore decryption_key =
     (if \<not> typed is_Object keystore then BADJSONFORMAT env
      else let crypto = get_item keystore ''crypto'' in
      if crypto = None then BADJSONFORMAT env
      else let cipher = get_item crypto ''cipher'' in
      if cipher = None then BADJSONFORMAT env
      else let params = get_item cipher ''params'' in
      if params = None then BADJSONFORMAT env
      else let json_iv_str = get_item params ''iv'' in
      if \<not> typed is_String json_iv_str then BADJSONFORMAT env
      else let json_cipher_message = get_item cipher ''message'' in
      if \<not> typed is_String json_cipher_message then BADJSONFORMAT env
      else get_private_key env (the (valuestring (the json_cipher_message)))
             (the (valuestring (the json_iv_str))) decryption_key)"

text \<open>
  The body of the loop of \<open>import_from_keystore\<close> for one entry: the error code (0 when
  the entry passes every step) and the contents of \<open>decryption_key\<close> afterwards.
  \<^verbatim>\<open>
  int type;
  if((error = get_decryption_key_encryption_type(keystores[i], &type)) != 0){ return error; }
  if(type == PBKDF2TYPE){
      if((error = get_decryption_key_pbkdf2_params(keystores[i], passwords[i], decryption_key)) != 0){ return error; }
  }else if(type == SCRYPTTYPE){
      if((error = get_decryption_key_scrypt_params(keystores[i], passwords[i], decryption_key)) != 0){ return error; }
  }else{ return -1; }
  if((error = verificate_password_params(keystores[i], decryption_key)) != 0){ return error; }
  if((error = get_private_key_params(keystores[i], decryption_key, private_key)) != 0){ return error; }
  \<close>
\<close>

definition import_entry ::
  "collaborators \<Rightarrow> cJSON \<Rightarrow> string \<Rightarrow> 8 word list \<Rightarrow> int \<Rightarrow> int \<times> 8 word list" where
  "import_entry env keystore password decryption_key type0 =
     (case get_decryption_key_encryption_type env (Some keystore) type0 of (error, type) \<Rightarrow>
      if error \<noteq> 0 then (error, decryption_key)
      else
        (case (if type = PBKDF2TYPE
                 then get_decryption_key_pbkdf2_params env (Some keystore) password decryption_key
               else if type = SCRYPTTYPE
                 then get_decryption_key_scrypt_params env (Some keystore) password decryption_key
               else (- 1, decryption_key)) of (error, decryption_key') \<Rightarrow>
         if error \<noteq> 0 then (error, decryption_key')
         else let error = verificate_password_params env (Some keystore) decryption_key' in
         if error \<noteq> 0 then (error, decryption_key')
         else let error = get_private_key_params env (Some keystore) decryption_key' in
         if error \<noteq> 0 then (error, decryption_key')
         else (0, decryption_key')))"

text \<open>
  \<^verbatim>\<open>
  int import_from_keystore(cJSON* keystores[], char** passwords, int nKeys){
      int error;
      unsigned char decryption_key[32];
      char private_key[32];
      for(int i = 0; i < nKeys; ++i){ ... the body above ... }
      return 0;
  }
  \<close>
  \<open>decryption_key\<close> is what the uninitialised local holds before the first entry.
  Nothing in the loop calls \<open>import_sk\<close> or any other function of the key store.
\<close>

function import_from_keystore_loop ::
  "collaborators \<Rightarrow> cJSON list \<Rightarrow> string list \<Rightarrow> nat \<Rightarrow> nat \<Rightarrow> 8 word list \<Rightarrow> int \<Rightarrow> int" where
  "import_from_keystore_loop env keystores passwords nkeys i decryption_key type0 =
     (if i < nkeys then
        (case import_entry env (keystores ! i) (passwords ! i) decryption_key type0 of
           (error, decryption_key') \<Rightarrow>
             if error \<noteq> 0 then error
             else import_from_keystore_loop env keystores passwords nkeys (i + 1) decryption_key' type0)
      else 0)"
  by pat_completeness auto
termination
  by (relation "measure (\<lambda>(env, keystores, passwords, nkeys, i, dk, type0). nkeys - i)") auto

definition import_from_keystore ::
  "collaborators \<Rightarrow> cJSON list \<Rightarrow> string list \<Rightarrow> nat \<Rightarrow> 8 word list \<Rightarrow> int \<Rightarrow> int" where
  "import_from_keystore env keystores passwords nkeys decryption_key type0 =
     import_from_keystore_loop env keystores passwords nkeys 0 decryption_key type0"

text \<open>
  \<open>httpImportFromKeystore\<close>. The two loops walk the children of \<open>keystores\<close> and of
  \<open>passwords\<close> and fill the local arrays; \<open>None\<close> stands for their \<open>return -1\<close>.
  \<^verbatim>\<open>
  while(keystoresJson != NULL){
      if(nKeystores < (MAXKeys + nKeysAlreadyStored)){
          keystores[nKeystores] = keystoresJson;
          ++nKeystores;
          keystoresJson = keystoresJson->next;
      }else{ return -1; }
  }
  while(passwordsJson != NULL){
      if(nPasswords < (MAXKeys + nKeysAlreadyStored)){
          if(passwordsJson->type != cJSON_String){ return -1; }
          else{ passwords[nPasswords] = passwordsJson->valuestring; }
          ++nPasswords;
          passwordsJson = passwordsJson->next;
      }else{ return -1; }
  }
  \<close>
  The arrays \<open>keystores\<close> and \<open>passwords\<close> are declared with \<open>MAXKeys\<close> elements,
  while the loops admit \<open>MAXKeys + nKeysAlreadyStored\<close> entries: the write of an entry
  with index \<open>MAXKeys\<close> or more is behind the array, a fault. \<open>Inr None\<close> stands for
  \<open>return -1\<close>.
\<close>

fun collect_keystores :: "cJSON list \<Rightarrow> nat \<Rightarrow> cJSON list \<Rightarrow> fault + cJSON list option" where
  "collect_keystores [] nKeysAlreadyStored keystores = Inr (Some keystores)"
| "collect_keystores (keystoresJson # next) nKeysAlreadyStored keystores =
     (if length keystores < MAXKeys + nKeysAlreadyStored
      then (if length keystores < MAXKeys
            then collect_keystores next nKeysAlreadyStored (keystores @ [keystoresJson])
            else Inl (OutOfBounds ''keystores'' (int (length keystores))))
      else Inr None)"

fun collect_passwords :: "cJSON list \<Rightarrow> nat \<Rightarrow> string list \<Rightarrow> fault + string list option" where
  "collect_passwords [] nKeysAlreadyStored passwords = Inr (Some passwords)"
| "collect_passwords (passwordsJson # next) nKeysAlreadyStored passwords =
     (if length passwords < MAXKeys + nKeysAlreadyStored
      then (if \<not> is_String passwordsJson then Inr None
            else if length passwords < MAXKeys
            then collect_passwords next nKeysAlreadyStored
                   (passwords @ [the (valuestring passwordsJson)])
            else Inl (OutOfBounds ''passwords'' (int (length passwords))))
      else Inr None)"

text \<open>
  \<^verbatim>\<open>
  int httpImportFromKeystore(char* body){
      cJSON* json= cJSON_Parse(body);
      if(json == NULL){ return -1; }
      cJSON* keystoresJson = cJSON_GetObjectItemCaseSensitive(json, "keystores");
      if((keystoresJson == NULL) || (keystoresJson->child == NULL)){ return -1; }
      cJSON* passwordsJson = cJSON_GetObjectItemCaseSensitive(json, "passwords");
      if((passwordsJson == NULL) || (passwordsJson->child == NULL)){ return -1; }
      int nKeysAlreadyStored = get_keystore_size();
      ... the two loops ...
      if(nKeystores != nPasswords){ return -1; }
      if(import_from_keystore(keystores, (char**) passwords, nKeystores) != 0){ return -1; }
      return 0;
  }
  \<close>
\<close>

definition httpImportFromKeystore ::
  "collaborators \<Rightarrow> string option \<Rightarrow> keystore \<Rightarrow> 8 word list \<Rightarrow> int \<Rightarrow> fault + int" where
  "httpImportFromKeystore env body ks decryption_key type0 =
     (case cJSON_Parse_ptr env body of
        None \<Rightarrow> Inr (- 1)
      | Some j \<Rightarrow>
          (case cJSON_GetObjectItemCaseSensitive j ''keystores'' of
             None \<Rightarrow> Inr (- 1)
           | Some keystoresJson \<Rightarrow>
               if children keystoresJson = [] then Inr (- 1)
               else
                 (case cJSON_GetObjectItemCaseSensitive j ''passwords'' of
                    None \<Rightarrow> Inr (- 1)
                  | Some passwordsJson \<Rightarrow>
                      if children passwordsJson = [] then Inr (- 1)
                      else
                        (let nKeysAlreadyStored = get_keystore_size ks
                         in case collect_keystores (children keystoresJson) nKeysAlreadyStored [] of
                              Inl f \<Rightarrow> Inl f
                            | Inr None \<Rightarrow> Inr (- 1)
                            | Inr (Some keystores) \<Rightarrow>
                                (case collect_passwords (children passwordsJson) nKeysAlreadyStored [] of
                                   Inl f \<Rightarrow> Inl f
                                 | Inr None \<Rightarrow> Inr (- 1)
                                 | Inr (Some passwords) \<Rightarrow>
                                     if length keystores \<noteq> length passwords then Inr (- 1)
                                     else if import_from_keystore env keystores passwords
                                               (length keystores) decryption_key type0 \<noteq> 0
                                       then Inr (- 1)
                                     else Inr 0)))))"

section \<open>Dispatch\<close>

text \<open>
  \<^verbatim>\<open>
  int dumpHttpResponse(char* buffer, struct boardRequest* request){
      int error;
      switch(request->method){
          case sign:
              if(checkKey(request) == -1){ return pknotfoundResponseStr(buffer); }
              return signResponseStr(buffer, request);
          case upcheck:
              return upcheckResponseStr(buffer);
          case getKeys:
              copyKeys(request);
              return getKeysResponseStr(buffer, request);
          case importKey:
              if((error = httpImportFromKeystore(request->json)) == 0){
                  return getKeysResponseStr(buffer, request);
              }else{ return error; }
          default:
              return -1;
      }
  }
  \<close>
  The result is the return value (the length of the response, or \<open>-1\<close>), the buffer,
  the request structure and the key store afterwards.
\<close>

definition dumpHttpResponse ::
  "collaborators \<Rightarrow> string \<Rightarrow> boardRequest \<Rightarrow> keystore \<Rightarrow> 8 word list \<Rightarrow> int \<Rightarrow>
   fault + int \<times> string \<times> boardRequest \<times> keystore" where
  "dumpHttpResponse env buffer request ks decryption_key type0 =
     (if method request = sign then
        (case checkKey ks request of (r, request') \<Rightarrow>
           if r = - 1 then Inr (fst pknotfoundResponseStr, snd pknotfoundResponseStr, request', ks)
           else (case signResponseStr env buffer request' ks of
                   (n, buffer', ks') \<Rightarrow> Inr (n, buffer', request', ks')))
      else if method request = upcheck then
        Inr (fst upcheckResponseStr, snd upcheckResponseStr, request, ks)
      else if method request = getKeys then
        (case copyKeys ks request of (r, request') \<Rightarrow>
           Inr (fst (getKeysResponseStr request'), snd (getKeysResponseStr request'), request', ks))
      else if method request = importKey then
        (case httpImportFromKeystore env (json request) ks decryption_key type0 of
           Inl f \<Rightarrow> Inl f
         | Inr error \<Rightarrow>
             if error = 0
             then Inr (fst (getKeysResponseStr request), snd (getKeysResponseStr request),
                       request, ks)
             else Inr (error, buffer, request, ks))
      else Inr (- 1, buffer, request, ks))"


section \<open>Example states\<close>

text \<open>
  \<open>stored_pk ks i\<close> is the \<open>i\<close>-th slot of 96 characters of the public-key array.
\<close>

definition stored_pk :: "keystore \<Rightarrow> nat \<Rightarrow> string" where
  "stored_pk ks i = take 96 (drop (96 * i) (public_keys_hex_store ks))"

text \<open>
  A store with two keys, as it stands after two rounds of \<open>import_sk\<close> followed by
  \<open>store_pk\<close> from the initial state (lemma \<open>example_store_reached\<close> below).
\<close>

definition example_store :: keystore where
  "example_store =
     \<lparr>sk = replicate 32 2,
      secret_keys_store = [replicate 32 1, replicate 32 2] @ replicate 8 zero_scalar,
      sk_sign = zero_scalar,
      public_keys_hex_store =
        replicate 96 CHR ''a'' @ replicate 96 CHR ''b'' @ replicate 768 NUL,
      keystore_size = 2\<rparr>"

definition insert_key :: "blst_scalar \<Rightarrow> string \<Rightarrow> keystore \<Rightarrow> fault + keystore" where
  "insert_key k pk ks =
     (case import_sk k ks of
        Inl f \<Rightarrow> Inl f
      | Inr (r, ks') \<Rightarrow> store_pk pk ks')"

text \<open>A store holding ten keys, the capacity of the arrays.\<close>

definition full_store :: keystore where
  "full_store =
     \<lparr>sk = replicate 32 10,
      secret_keys_store =
        [replicate 32 1, replicate 32 2, replicate 32 3, replicate 32 4, replicate 32 5,
         replicate 32 6, replicate 32 7, replicate 32 8, replicate 32 9, replicate 32 10],
      sk_sign = zero_scalar,
      public_keys_hex_store =
        replicate 96 CHR ''0'' @ replicate 96 CHR ''1'' @ replicate 96 CHR ''2'' @
        replicate 96 CHR ''3'' @ replicate 96 CHR ''4'' @ replicate 96 CHR ''5'' @
        replicate 96 CHR ''6'' @ replicate 96 CHR ''7'' @ replicate 96 CHR ''8'' @
        replicate 96 CHR ''9'',
      keystore_size = 10\<rparr>"

text \<open>A key generator that returns a fixed scalar, for the concrete runs.\<close>

definition example_keygen :: "8 word list \<Rightarrow> string \<Rightarrow> blst_scalar" where
  "example_keygen ikm info = replicate 32 11"

section \<open>Example requests\<close>

text \<open>
  What a caller passes to \<open>parseRequest\<close> beside the bytes: a cleared reply structure
  with a key buffer of 99 bytes, and (for the uninitialised local) a cleared request.
\<close>

definition reply_init :: boardRequest where
  "reply_init =
     \<lparr>method = 0, acceptType = 0, json = None, keyToSign = replicate 99 NUL,
      publicKeys = replicate 10 (replicate 96 NUL), nKeys = 0, jsonLen = 0\<rparr>"

definition request_init :: httpRequest where
  "request_init =
     \<lparr>req_method = [], req_path = [], req_body = None, req_acceptType = 0,
      requestLen = 0, bodyLen = 0, minorVersion = 0, headers = []\<rparr>"


text \<open>
  A sign request for the second key of \<open>example_store\<close>, and what picohttpparser
  returns for it.
\<close>

definition sign_body :: string where
  "sign_body =
     [CHR ''{'', DQUOTE] @ ''signingRoot'' @ [DQUOTE, CHR '':'', DQUOTE] @ ''0x'' @
     replicate 64 CHR ''0'' @ [DQUOTE, CHR ''}'']"

definition sign_head :: string where
  "sign_head =
     ''POST /api/v1/eth2/sign/0x'' @ replicate 96 CHR ''b'' @ '' HTTP/1.1'' @ CRLF @
     ''Content-Length: 84'' @ CRLF @ CRLF"

definition sign_request :: string where
  "sign_request = sign_head @ sign_body"

definition sign_request_parsed :: phr_result where
  "sign_request_parsed =
     \<lparr>phr_ret = int (length sign_head), phr_method = ''POST'',
      phr_path = ''/api/v1/eth2/sign/0x'' @ replicate 96 CHR ''b'',
      phr_minor_version = 1,
      phr_headers = [\<lparr>hdr_name = Some ''Content-Length'', hdr_value = ''84''\<rparr>]\<rparr>"

text \<open>
  Two import requests that differ in the order of their two headers only, a third that
  differs from the first in the letter case of the name \<open>Content-Length\<close> only, and what
  picohttpparser returns for the first and the third.
\<close>

definition import_request_lower_case :: string where
  "import_request_lower_case =
     ''POST /eth/v1/keystores HTTP/1.1'' @ CRLF @ ''Accept: */*'' @ CRLF @
     ''content-length: 2'' @ CRLF @ CRLF @ ''{}''"

definition import_request_cl_last :: string where
  "import_request_cl_last =
     ''POST /eth/v1/keystores HTTP/1.1'' @ CRLF @ ''Accept: */*'' @ CRLF @
     ''Content-Length: 2'' @ CRLF @ CRLF @ ''{}''"

definition import_request_cl_first :: string where
  "import_request_cl_first =
     ''POST /eth/v1/keystores HTTP/1.1'' @ CRLF @ ''Content-Length: 2'' @ CRLF @
     ''Accept: */*'' @ CRLF @ CRLF @ ''{}''"

definition import_request_lower_case_parsed :: phr_result where
  "import_request_lower_case_parsed =
     \<lparr>phr_ret = int (length import_request_lower_case) - 2, phr_method = ''POST'',
      phr_path = ''/eth/v1/keystores'', phr_minor_version = 1,
      phr_headers = [\<lparr>hdr_name = Some ''Accept'', hdr_value = ''*/*''\<rparr>,
                     \<lparr>hdr_name = Some ''content-length'', hdr_value = ''2''\<rparr>]\<rparr>"

definition import_request_parsed :: phr_result where
  "import_request_parsed =
     \<lparr>phr_ret = int (length import_request_cl_last) - 2, phr_method = ''POST'',
      phr_path = ''/eth/v1/keystores'', phr_minor_version = 1,
      phr_headers = [\<lparr>hdr_name = Some ''Accept'', hdr_value = ''*/*''\<rparr>,
                     \<lparr>hdr_name = Some ''Content-Length'', hdr_value = ''2''\<rparr>]\<rparr>"

text \<open>
  An encrypted keystore of the EIP-2335 shape with the PBKDF2 key derivation, by its
  \<open>dklen\<close>, and the tree of an import request with \<open>n\<close> such keystores and \<open>n\<close>
  passwords.
\<close>

definition pbkdf2_keystore :: "int \<Rightarrow> cJSON" where
  "pbkdf2_keystore dklen =
     cJSON_Object
       [(''crypto'', cJSON_Object
          [(''kdf'', cJSON_Object
             [(''function'', cJSON_String ''pbkdf2''),
              (''params'', cJSON_Object
                 [(''dklen'', cJSON_Number dklen), (''c'', cJSON_Number 262144),
                  (''prf'', cJSON_String ''hmac-sha256''),
                  (''salt'', cJSON_String ''d4e56740f876aef8c010b86a40d5f56745a118d0906a34e69aec8c0db1cb8fa3'')]),
              (''message'', cJSON_String [])]),
           (''checksum'', cJSON_Object
             [(''function'', cJSON_String ''sha256''), (''params'', cJSON_Object []),
              (''message'', cJSON_String ''8a9f5d9912ed7e75ea794bc5a89bca5f193721d30868ade6f73043c6ea6febf1'')]),
           (''cipher'', cJSON_Object
             [(''function'', cJSON_String ''aes-128-ctr''),
              (''params'', cJSON_Object [(''iv'', cJSON_String ''264daa3f303d7259501c93d997d84fe6'')]),
              (''message'', cJSON_String ''cee03fde2af33149775b7223e7845e4fb2c8ae1792e5f99fe9ecf474cc8c16ad'')])]),
        (''path'', cJSON_String ''m/12381/60/0/0''),
        (''version'', cJSON_Number 4)]"

definition import_tree :: "nat \<Rightarrow> cJSON" where
  "import_tree n =
     cJSON_Object
       [(''keystores'', cJSON_Array (replicate n (pbkdf2_keystore 32))),
        (''passwords'', cJSON_Array (replicate n (cJSON_String ''testpassword'')))]"

text \<open>The reply structure as \<open>parseRequest\<close> leaves it for \<open>sign_request\<close>.\<close>

definition sign_reply :: boardRequest where
  "sign_reply =
     reply_init\<lparr>keyToSign := ''0x'' @ replicate 96 CHR ''b'' @ [NUL],
                json := Some sign_body, jsonLen := 84, method := sign\<rparr>"

text \<open>
  Collaborators for the concrete runs: picohttpparser and cJSON by the table of their
  results on the example requests; a \<open>signature\<close> that looks the key up behind the
  \<open>0x\<close> prefix and returns a fixed signature; a key derivation, a password check and a
  decryption that succeed. \<open>BADJSONFORMAT\<close> is given a non-zero value, as an error
  code beside the success value 0; its value in \<open>common.h\<close> is not in the sources.
\<close>

definition example_phr :: "string \<Rightarrow> nat \<Rightarrow> phr_result" where
  "example_phr buffer bufferSize =
     (if buffer = sign_request then sign_request_parsed
      else if buffer = import_request_cl_last then import_request_parsed
      else if buffer = import_request_lower_case then import_request_lower_case_parsed
      else \<lparr>phr_ret = - 1, phr_method = [], phr_path = [], phr_minor_version = 0,
             phr_headers = []\<rparr>)"

definition example_parse :: "string \<Rightarrow> cJSON option" where
  "example_parse text =
     (if text = sign_body
      then Some (cJSON_Object [(''signingRoot'', cJSON_String (''0x'' @ replicate 64 CHR ''0''))])
      else None)"

definition example_signature :: "string \<Rightarrow> string \<Rightarrow> keystore \<Rightarrow> int \<times> string \<times> keystore" where
  "example_signature key msg ks =
     (case pk_in_keystore key 2 ks of
        (r, ks') \<Rightarrow> if r = 0 then (0, replicate 192 CHR ''5'', ks') else (- 1, [], ks'))"

definition example_env :: collaborators where
  "example_env =
     \<lparr>BADJSONFORMAT = - 2,
      phr_parse_request = example_phr,
      cJSON_Parse = example_parse,
      signature = example_signature,
      get_decryption_key_scrypt = (\<lambda>password dklen n r p salt decryption_key. (0, decryption_key)),
      verificate_password = (\<lambda>checksum cipher decryption_key. 0),
      get_private_key = (\<lambda>cipher iv decryption_key. 0)\<rparr>"

text \<open>A \<open>cJSON_Parse\<close> that returns the given tree for the body at hand.\<close>

definition parse_as :: "cJSON \<Rightarrow> string \<Rightarrow> cJSON option" where
  "parse_as tree text = Some tree"




section \<open>The ListKeys body in the words of the specification\<close>

text \<open>
  The body is \<open>[\\n"0x<hex1>",\\n"0x<hex2>",\\n...\\n]\<close>, with a comma only between
  entries, and \<open>[\\n]\<close> for the empty key store.
\<close>

definition spec_quoted :: "string \<Rightarrow> string" where
  "spec_quoted k = [DQUOTE] @ ''0x'' @ k @ [DQUOTE]"

fun spec_entries :: "string list \<Rightarrow> string" where
  "spec_entries [] = []"
| "spec_entries [k] = spec_quoted k"
| "spec_entries (k # k' # keys) = spec_quoted k @ '','' @ [LF] @ spec_entries (k' # keys)"

definition spec_ListKeys_body :: "string list \<Rightarrow> string" where
  "spec_ListKeys_body keys =
     (if keys = [] then ''['' @ [LF] @ '']''
      else ''['' @ [LF] @ spec_entries keys @ [LF] @ '']'')"

section \<open>Auxiliary notions for the proofs\<close>


text \<open>What the loop of \<open>getKeysResponseStr\<close> appends for a list of rows.\<close>

fun key_lines :: "string list \<Rightarrow> string" where
  "key_lines [] = []"
| "key_lines [k] = [DQUOTE] @ ''0x'' @ k @ [DQUOTE] @ [LF]"
| "key_lines (k # k' # keys) = [DQUOTE] @ ''0x'' @ k @ [DQUOTE] @ '','' @ [LF] @ key_lines (k' # keys)"
section \<open>Properties of the key store\<close>

text \<open>
  The recursive loop functions are unfolded one step at a time in the proofs, never by
  the simplifier on its own.
\<close>

declare pk_cmp.simps [simp del] pk_loop.simps [simp del] sk_cmp.simps [simp del]
  import_loop.simps [simp del]

lemma pk_cmp_char:
  "pk_cmp pk off store cont c x =
     (if \<exists>y. x \<le> y \<and> y < 96 \<and> pk ! (y + off) \<noteq> store ! (y + cont) then 1 else c)"
proof (induction pk off store cont c x rule: pk_cmp.induct)
  case (1 pk off store cont c x)
  show ?case
  proof (cases "x < 96")
    case False
    then show ?thesis by (subst pk_cmp.simps) auto
  next
    case True
    show ?thesis
    proof (cases "pk ! (x + off) \<noteq> store ! (x + cont)")
      case True
      with \<open>x < 96\<close> show ?thesis by (subst pk_cmp.simps) auto
    next
      case False
      have "(\<exists>y. x \<le> y \<and> y < 96 \<and> pk ! (y + off) \<noteq> store ! (y + cont)) =
            (\<exists>y. x + 1 \<le> y \<and> y < 96 \<and> pk ! (y + off) \<noteq> store ! (y + cont))"
        using False by (metis Suc_eq_plus1 Suc_leI le_neq_implies_less Suc_leD)
      with 1 True False show ?thesis by (subst pk_cmp.simps) simp
    qed
  qed
qed

lemma slice_eq_iff:
  assumes "off + 96 \<le> length pk" "cont + 96 \<le> length store"
  shows "(\<forall>y<96. pk ! (y + off) = store ! (y + cont)) =
         (take 96 (drop off pk) = take 96 (drop cont store))"
  using assms by (auto simp: list_eq_iff_nth_eq add.commute)

lemma pk_cmp_match:
  assumes "keystore_wf ks" "off + 96 \<le> length pk" "i < keystore_size ks"
  shows "(pk_cmp pk off (public_keys_hex_store ks) (96 * i) 0 0 = 0) =
         (stored_pk ks i = take 96 (drop off pk))"
proof -
  have "96 * i + 96 \<le> length (public_keys_hex_store ks)"
    using assms(1,3) by (simp add: keystore_wf_def)
  from slice_eq_iff [OF assms(2) this] show ?thesis
    by (auto simp: pk_cmp_char stored_pk_def)
qed

lemma pk_loop_exit: "\<not> i < keystore_size ks \<Longrightarrow> pk_loop pk off ks i c cont ret = (ret, ks)"
  by (subst pk_loop.simps) simp

lemma pk_loop_result:
  shows "keystore_wf ks \<Longrightarrow> off + 96 \<le> length pk \<Longrightarrow> cont = 96 * i \<Longrightarrow>
    (i < keystore_size ks \<longrightarrow> c = 0) \<Longrightarrow>
    pk_loop pk off ks i c cont ret = (r, ks') \<Longrightarrow>
    (\<exists>j. i \<le> j \<and> j < keystore_size ks \<and> stored_pk ks j = take 96 (drop off pk) \<and>
          (\<forall>k. i \<le> k \<and> k < j \<longrightarrow> stored_pk ks k \<noteq> take 96 (drop off pk)) \<and>
          r = ret \<and> ks' = ks\<lparr>sk_sign := secret_keys_store ks ! j\<rparr>) \<or>
    ((\<forall>k. i \<le> k \<and> k < keystore_size ks \<longrightarrow> stored_pk ks k \<noteq> take 96 (drop off pk)) \<and>
       ks' = ks \<and> r = (if i < keystore_size ks then - 1 else ret))"
proof (induction pk off ks i c cont ret rule: pk_loop.induct)
  case (1 pk off ks i c cont ret)
  let ?key = "take 96 (drop off pk)"
  note wf = "1.prems"(1) and len = "1.prems"(2)
  show ?case
  proof (cases "i < keystore_size ks")
    case False
    with "1.prems"(5) show ?thesis by (auto simp: pk_loop_exit)
  next
    case True
    with "1.prems" have c0: "c = 0" and cont: "cont = 96 * i" by simp_all
    let ?c' = "pk_cmp pk off (public_keys_hex_store ks) cont c 0"
    have m: "(?c' = 0) = (stored_pk ks i = ?key)"
      using pk_cmp_match [OF wf len True] c0 cont by simp
    show ?thesis
    proof (cases "?c' = 0")
      case c': True
      with True "1.prems"(5) have "r = ret" "ks' = ks\<lparr>sk_sign := secret_keys_store ks ! i\<rparr>"
        by (subst (asm) pk_loop.simps, simp)+
      with True c' m show ?thesis by auto
    next
      case c': False
      with m have nm: "stored_pk ks i \<noteq> ?key" by simp
      show ?thesis
      proof (cases "i + 1 < keystore_size ks")
        case last: False
        with True c' "1.prems"(5) have "pk_loop pk off ks (i + 1) ?c' cont (- 1) = (r, ks')"
          by (subst (asm) pk_loop.simps) (simp add: Let_def)
        with last have "r = - 1" "ks' = ks" by (simp_all add: pk_loop_exit)
        moreover have "\<forall>k. i \<le> k \<and> k < keystore_size ks \<longrightarrow> k = i"
          using last by auto
        ultimately show ?thesis using True nm by auto
      next
        case more: True
        with True c' "1.prems"(5) have e: "pk_loop pk off ks (i + 1) 0 (cont + 96) ret = (r, ks')"
          by (subst (asm) pk_loop.simps) (simp add: Let_def)
        have "cont + 96 = 96 * (i + 1)" using cont by simp
        from "1.IH"(1) [OF True refl c' more wf len this _ e]
        have "(\<exists>j. i + 1 \<le> j \<and> j < keystore_size ks \<and> stored_pk ks j = ?key \<and>
          (\<forall>k. i + 1 \<le> k \<and> k < j \<longrightarrow> stored_pk ks k \<noteq> ?key) \<and>
          r = ret \<and> ks' = ks\<lparr>sk_sign := secret_keys_store ks ! j\<rparr>) \<or>
          ((\<forall>k. i + 1 \<le> k \<and> k < keystore_size ks \<longrightarrow> stored_pk ks k \<noteq> ?key) \<and>
            ks' = ks \<and> r = (if i + 1 < keystore_size ks then - 1 else ret))"
          by simp
        then show ?thesis
        proof
          assume "\<exists>j. i + 1 \<le> j \<and> j < keystore_size ks \<and> stored_pk ks j = ?key \<and>
          (\<forall>k. i + 1 \<le> k \<and> k < j \<longrightarrow> stored_pk ks k \<noteq> ?key) \<and>
          r = ret \<and> ks' = ks\<lparr>sk_sign := secret_keys_store ks ! j\<rparr>"
          then obtain j where j: "i + 1 \<le> j" "j < keystore_size ks" "stored_pk ks j = ?key"
            "\<forall>k. i + 1 \<le> k \<and> k < j \<longrightarrow> stored_pk ks k \<noteq> ?key"
            "r = ret" "ks' = ks\<lparr>sk_sign := secret_keys_store ks ! j\<rparr>" by blast
          have "\<forall>k. i \<le> k \<and> k < j \<longrightarrow> stored_pk ks k \<noteq> ?key"
          proof (intro allI impI)
            fix k assume "i \<le> k \<and> k < j"
            then have "k = i \<or> (i + 1 \<le> k \<and> k < j)" by auto
            then show "stored_pk ks k \<noteq> ?key" using nm j(4) by auto
          qed
          with j show ?thesis by (intro disjI1 exI [of _ j]) simp
        next
          assume a: "(\<forall>k. i + 1 \<le> k \<and> k < keystore_size ks \<longrightarrow> stored_pk ks k \<noteq> ?key) \<and>
            ks' = ks \<and> r = (if i + 1 < keystore_size ks then - 1 else ret)"
          have "\<forall>k. i \<le> k \<and> k < keystore_size ks \<longrightarrow> stored_pk ks k \<noteq> ?key"
          proof (intro allI impI)
            fix k assume "i \<le> k \<and> k < keystore_size ks"
            then have "k = i \<or> (i + 1 \<le> k \<and> k < keystore_size ks)" by auto
            then show "stored_pk ks k \<noteq> ?key" using nm a by auto
          qed
          with a more True show ?thesis by simp
        qed
      qed
    qed
  qed
qed

text \<open>
  C10. A lookup that returns 0 has found a slot \<open>i\<close> whose 96 characters equal the
  requested key (the first such slot); it copies the secret stored at the same index
  into \<open>sk_sign\<close>, which is the key \<open>sign_pk\<close> then signs with, and changes nothing
  else. A lookup that fails changes nothing at all. In both cases the size, the stored
  secrets, the stored public keys and \<open>sk\<close> are as before.
\<close>

theorem pk_in_keystore_frame:
  assumes "keystore_wf ks" and "offset + 96 \<le> length public_key_hex"
    and "pk_in_keystore public_key_hex offset ks = (ret, ks')"
  shows "keystore_size ks' = keystore_size ks \<and>
         secret_keys_store ks' = secret_keys_store ks \<and>
         public_keys_hex_store ks' = public_keys_hex_store ks \<and>
         sk ks' = sk ks \<and>
         (ret = 0 \<longrightarrow>
            (\<exists>i<keystore_size ks.
               stored_pk ks i = take 96 (drop offset public_key_hex) \<and>
               (\<forall>k<i. stored_pk ks k \<noteq> take 96 (drop offset public_key_hex)) \<and>
               ks' = ks\<lparr>sk_sign := secret_keys_store ks ! i\<rparr> \<and>
               sign_pk blst_sign_pk_in_g1 hash ks' =
                 blst_sign_pk_in_g1 hash (secret_keys_store ks ! i))) \<and>
         (ret \<noteq> 0 \<longrightarrow> ks' = ks)"
proof -
  let ?ret0 = "if keystore_size ks = 0 then - 1 else (0::int)"
  from assms(3) have e: "pk_loop public_key_hex offset ks 0 0 0 ?ret0 = (ret, ks')"
    by (simp add: pk_in_keystore_def)
  from pk_loop_result [OF assms(1,2) _ _ e]
  consider (found) j where "j < keystore_size ks"
      "stored_pk ks j = take 96 (drop offset public_key_hex)"
      "\<forall>k<j. stored_pk ks k \<noteq> take 96 (drop offset public_key_hex)"
      "ret = ?ret0" "ks' = ks\<lparr>sk_sign := secret_keys_store ks ! j\<rparr>"
    | (missing) "ks' = ks" "ret = (if 0 < keystore_size ks then - 1 else ?ret0)"
    by auto
  then show ?thesis
  proof cases
    case found
    then show ?thesis by (auto simp: sign_pk_def)
  next
    case missing
    then show ?thesis by (auto split: if_splits)
  qed
qed

theorem pk_in_keystore_frame_witness:
  "keystore_wf example_store \<and>
   2 + 96 \<le> length (''0x'' @ replicate 96 CHR ''b'') \<and>
   pk_in_keystore (''0x'' @ replicate 96 CHR ''b'') 2 example_store =
     (0, example_store\<lparr>sk_sign := replicate 32 2\<rparr>) \<and>
   keystore_size (example_store\<lparr>sk_sign := replicate 32 2\<rparr>) = keystore_size example_store \<and>
   secret_keys_store (example_store\<lparr>sk_sign := replicate 32 2\<rparr>) =
     secret_keys_store example_store \<and>
   public_keys_hex_store (example_store\<lparr>sk_sign := replicate 32 2\<rparr>) =
     public_keys_hex_store example_store"
proof -
  have wf: "keystore_wf example_store"
    by (simp add: keystore_wf_def example_store_def zero_scalar_def list_all_iff)
  have len: "2 + 96 \<le> length (''0x'' @ replicate 96 CHR ''b'')" by simp
  have run: "pk_in_keystore (''0x'' @ replicate 96 CHR ''b'') 2 example_store =
     (0, example_store\<lparr>sk_sign := replicate 32 2\<rparr>)"
    by code_simp
  from pk_in_keystore_frame [OF wf len run] wf len run
  show ?thesis by simp
qed

lemma sk_cmp_char:
  "sk_cmp stored sk_imp c x =
     (if \<exists>y. x \<le> y \<and> y < 32 \<and> stored ! y \<noteq> sk_imp ! y then 1 else c)"
proof (induction stored sk_imp c x rule: sk_cmp.induct)
  case (1 stored sk_imp c x)
  show ?case
  proof (cases "x < 32")
    case False
    then show ?thesis by (subst sk_cmp.simps) auto
  next
    case True
    show ?thesis
    proof (cases "stored ! x \<noteq> sk_imp ! x")
      case True
      with \<open>x < 32\<close> show ?thesis by (subst sk_cmp.simps) auto
    next
      case False
      have "(\<exists>y. x \<le> y \<and> y < 32 \<and> stored ! y \<noteq> sk_imp ! y) =
            (\<exists>y. x + 1 \<le> y \<and> y < 32 \<and> stored ! y \<noteq> sk_imp ! y)"
        using False by (metis Suc_eq_plus1 Suc_leI le_neq_implies_less Suc_leD)
      with 1 True False show ?thesis by (subst sk_cmp.simps) simp
    qed
  qed
qed

lemma sk_cmp_eq:
  "length stored = 32 \<Longrightarrow> length sk_imp = 32 \<Longrightarrow> (sk_cmp stored sk_imp 0 0 = 0) = (stored = sk_imp)"
  by (auto simp: sk_cmp_char list_eq_iff_nth_eq)

lemma import_loop_exit:
  "\<not> i < keystore_size ks \<Longrightarrow> import_loop sk_imp ks i c ret = Inr (ret, ks)"
  by (subst import_loop.simps) simp

lemma import_loop_result:
  "keystore_wf ks \<Longrightarrow> length sk_imp = 32 \<Longrightarrow> (i < keystore_size ks \<longrightarrow> c = 0) \<Longrightarrow>
   import_loop sk_imp ks i c ret =
     (if \<exists>j. i \<le> j \<and> j < keystore_size ks \<and> secret_keys_store ks ! j = sk_imp
      then Inr (- 1, ks)
      else if i < keystore_size ks
        then (case import_append sk_imp ks of Inl f \<Rightarrow> Inl f | Inr ks' \<Rightarrow> Inr (ret, ks'))
        else Inr (ret, ks))"
proof (induction sk_imp ks i c ret rule: import_loop.induct)
  case (1 sk_imp ks i c ret)
  show ?case
  proof (cases "i < keystore_size ks")
    case False
    then show ?thesis by (auto simp: import_loop_exit)
  next
    case True
    with "1.prems" have c0: "c = 0" by simp
    from True "1.prems"(1) have "length (secret_keys_store ks ! i) = 32"
      by (simp add: keystore_wf_def list_all_length)
    from sk_cmp_eq [OF this "1.prems"(2)] c0
    have m: "(sk_cmp (secret_keys_store ks ! i) sk_imp c 0 = 0) = (secret_keys_store ks ! i = sk_imp)"
      by simp
    show ?thesis
    proof (cases "secret_keys_store ks ! i = sk_imp")
      case eq: True
      with m True have "import_loop sk_imp ks i c ret = Inr (- 1, ks)"
        by (subst import_loop.simps) simp
      moreover have "\<exists>j. i \<le> j \<and> j < keystore_size ks \<and> secret_keys_store ks ! j = sk_imp"
        using eq True by auto
      ultimately show ?thesis by simp
    next
      case ne: False
      with m have c': "sk_cmp (secret_keys_store ks ! i) sk_imp c 0 \<noteq> 0" by simp
      have shift: "(\<exists>j. i \<le> j \<and> j < keystore_size ks \<and> secret_keys_store ks ! j = sk_imp) =
                   (\<exists>j. i + 1 \<le> j \<and> j < keystore_size ks \<and> secret_keys_store ks ! j = sk_imp)"
        using ne by (metis Suc_eq_plus1 Suc_leI le_neq_implies_less Suc_leD)
      show ?thesis
      proof (cases "i + 1 < keystore_size ks")
        case more: True
        with True c' have "import_loop sk_imp ks i c ret = import_loop sk_imp ks (i + 1) 0 ret"
          by (subst import_loop.simps) (simp add: Let_def)
        also from "1.IH" [OF True refl c' more "1.prems"(1,2)] more
        have "\<dots> = (if \<exists>j. i + 1 \<le> j \<and> j < keystore_size ks \<and> secret_keys_store ks ! j = sk_imp
                     then Inr (- 1, ks)
                     else (case import_append sk_imp ks of
                             Inl f \<Rightarrow> Inl f | Inr ks' \<Rightarrow> Inr (ret, ks')))"
          by auto
        finally show ?thesis by (simp only: shift True if_True)
      next
        case last: False
        with True c' have "import_loop sk_imp ks i c ret =
            (case import_append sk_imp ks of Inl f \<Rightarrow> Inl f | Inr ks' \<Rightarrow> Inr (ret, ks'))"
          by (subst import_loop.simps) (simp add: Let_def)
        moreover have "\<not> (\<exists>j. i + 1 \<le> j \<and> j < keystore_size ks \<and> secret_keys_store ks ! j = sk_imp)"
          using last by auto
        ultimately show ?thesis by (simp only: shift True if_True if_False)
      qed
    qed
  qed
qed

lemma import_sk_result:
  assumes "keystore_wf ks" "length sk_imp = 32"
  shows "import_sk sk_imp ks =
     (if sk_imp \<in> set (take (keystore_size ks) (secret_keys_store ks)) then Inr (- 1, ks)
      else (case import_append sk_imp ks of Inl f \<Rightarrow> Inl f | Inr ks' \<Rightarrow> Inr (0, ks')))"
proof -
  have n: "keystore_size ks \<le> length (secret_keys_store ks)"
    using assms(1) by (simp add: keystore_wf_def)
  have mem: "(sk_imp \<in> set (take (keystore_size ks) (secret_keys_store ks))) =
        (\<exists>j. 0 \<le> j \<and> j < keystore_size ks \<and> secret_keys_store ks ! j = sk_imp)"
    using n by (auto simp: in_set_conv_nth)
  show ?thesis
  proof (cases "keystore_size ks = 0")
    case True
    then show ?thesis by (simp add: import_sk_def)
  next
    case False
    then have pos: "0 < keystore_size ks" by simp
    have c: "0 < keystore_size ks \<longrightarrow> (0 :: nat) = 0" by simp
    from False have "import_sk sk_imp ks = import_loop sk_imp ks 0 0 0"
      by (simp add: import_sk_def)
    also have "\<dots> = (if \<exists>j. 0 \<le> j \<and> j < keystore_size ks \<and> secret_keys_store ks ! j = sk_imp
        then Inr (- 1, ks)
        else (case import_append sk_imp ks of Inl f \<Rightarrow> Inl f | Inr ks' \<Rightarrow> Inr (0, ks')))"
      unfolding import_loop_result [OF assms c, of 0] by (simp only: pos if_True)
    finally show ?thesis unfolding mem .
  qed
qed

lemma example_store_reached:
  "(case insert_key (replicate 32 1) (replicate 96 CHR ''a'') keystore_init of
      Inl f \<Rightarrow> Inl f
    | Inr ks \<Rightarrow> insert_key (replicate 32 2) (replicate 96 CHR ''b'') ks) = Inr example_store"
  by code_simp

lemma full_store_wf: "keystore_wf full_store"
  by (simp add: keystore_wf_def full_store_def list_all_iff)

text \<open>
  C4. Neither insertion function tests the capacity, and neither has a result for a
  full store. With ten keys stored, \<open>ikm_sk\<close> runs into the assignment
  \<open>secret_keys_store[10] = sk\<close>, behind the array of ten elements, and so does
  \<open>import_sk\<close> for every secret that is not stored yet; only a secret that is already
  stored is refused (with \<open>-1\<close>, the result for a duplicate, and the store unchanged).
\<close>

theorem insert_at_capacity_writes_past_array:
  assumes "keystore_wf ks" and "keystore_size ks = 10" and "length sk_imp = 32"
  shows "ikm_sk blst_keygen ikm info ks = Inl (OutOfBounds ''secret_keys_store'' 10) \<and>
         import_sk sk_imp ks =
           (if sk_imp \<in> set (secret_keys_store ks) then Inr (- 1, ks)
            else Inl (OutOfBounds ''secret_keys_store'' 10))"
proof -
  have n: "length (secret_keys_store ks) = 10"
    using assms(1) by (simp add: keystore_wf_def)
  have a: "import_append sk_imp ks = Inl (OutOfBounds ''secret_keys_store'' 10)"
    using n assms(2) by (simp add: import_append_def)
  have t: "take (keystore_size ks) (secret_keys_store ks) = secret_keys_store ks"
    using n assms(2) by simp
  have i: "ikm_sk blst_keygen ikm info ks = Inl (OutOfBounds ''secret_keys_store'' 10)"
    using n assms(2) by (simp add: ikm_sk_def Let_def)
  show ?thesis
    unfolding i import_sk_result [OF assms(1,3)] t a by simp
qed

theorem insert_at_capacity_writes_past_array_witness:
  "keystore_wf full_store \<and> keystore_size full_store = 10 \<and>
   ikm_sk example_keygen [] [] full_store = Inl (OutOfBounds ''secret_keys_store'' 10) \<and>
   import_sk (replicate 32 11) full_store = Inl (OutOfBounds ''secret_keys_store'' 10) \<and>
   import_sk (replicate 32 3) full_store = Inr (- 1, full_store)"
proof -
  have sz: "keystore_size full_store = 10" by (simp add: full_store_def)
  have l: "length (replicate 32 (11 :: 8 word)) = 32" "length (replicate 32 (3 :: 8 word)) = 32"
    by simp_all
  have new: "replicate 32 (11 :: 8 word) \<notin> set (secret_keys_store full_store)"
    by (simp add: full_store_def)
  have old: "replicate 32 (3 :: 8 word) \<in> set (secret_keys_store full_store)"
    by (simp add: full_store_def)
  from insert_at_capacity_writes_past_array [OF full_store_wf sz l(1), of example_keygen "[]" "[]"]
       insert_at_capacity_writes_past_array [OF full_store_wf sz l(2), of example_keygen "[]" "[]"]
       full_store_wf sz new old
  show ?thesis by simp
qed

text \<open>
  C8. \<open>reset\<close> clears the two arrays and the size, and nothing else: run after a
  successful lookup in the two-key store, it leaves the looked-up secret in \<open>sk_sign\<close>
  and the last inserted secret in \<open>sk\<close>.
\<close>

theorem reset_keeps_working_copies:
  "keystore_size (reset (snd (pk_in_keystore (''0x'' @ replicate 96 CHR ''b'') 2 example_store))) = 0 \<and>
   secret_keys_store (reset (snd (pk_in_keystore (''0x'' @ replicate 96 CHR ''b'') 2 example_store))) =
     replicate 10 zero_scalar \<and>
   sk_sign (reset (snd (pk_in_keystore (''0x'' @ replicate 96 CHR ''b'') 2 example_store))) =
     replicate 32 2 \<and>
   sk (reset (snd (pk_in_keystore (''0x'' @ replicate 96 CHR ''b'') 2 example_store))) =
     replicate 32 2"
proof -
  have run: "pk_in_keystore (''0x'' @ replicate 96 CHR ''b'') 2 example_store =
     (0, example_store\<lparr>sk_sign := replicate 32 2\<rparr>)"
    by code_simp
  show ?thesis unfolding run snd_conv by (simp add: reset_def example_store_def)
qed

section \<open>Properties of the HTTP layer: concrete runs\<close>

declare copyKeys_loop.simps [simp del] checkKey_loop.simps [simp del]
  getAcceptOptions_loop.simps [simp del] getBody_loop.simps [simp del]
  getKeysResponseStr_loop.simps [simp del] import_from_keystore_loop.simps [simp del]

lemma sign_request_parse:
  "parseRequest example_env request_init sign_request (length sign_request) reply_init =
     Inr (0, sign_reply)"
  by code_simp

text \<open>
  C1. The second key of the two-key store is \<open>b...b\<close>. The sign request for that key
  parses (result 0) into a reply whose \<open>keyToSign\<close> is \<open>0xb...b\<close>: \<open>parseRequest\<close>
  writes the prefix \<open>0x\<close> in front of the 96 characters of the path. \<open>checkKey\<close>
  compares the first 96 characters of \<open>keyToSign\<close>, prefix included, with each stored
  row, so no stored key is found and the handler answers with the 404 response.
\<close>

theorem sign_stored_key_not_found:
  "stored_pk example_store 1 = replicate 96 CHR ''b'' \<and>
   parseRequest example_env request_init sign_request (length sign_request) reply_init =
     Inr (0, sign_reply) \<and>
   take 98 (keyToSign sign_reply) = ''0x'' @ replicate 96 CHR ''b'' \<and>
   dumpHttpResponse example_env [] sign_reply example_store [] 0 =
     Inr (int (length pknf), pknf, snd (checkKey example_store sign_reply), example_store)"
proof -
  have a: "stored_pk example_store 1 = replicate 96 CHR ''b''"
    by (simp add: stored_pk_def example_store_def)
  have b: "take 98 (keyToSign sign_reply) = ''0x'' @ replicate 96 CHR ''b''"
    by (simp add: sign_reply_def)
  have c: "dumpHttpResponse example_env [] sign_reply example_store [] 0 =
     Inr (int (length pknf), pknf, snd (checkKey example_store sign_reply), example_store)"
    by code_simp
  from a b c sign_request_parse show ?thesis by simp
qed

text \<open>
  C2. Two complete import requests of the same length, each with a two-byte body and
  the headers \<open>Accept\<close> and \<open>Content-Length: 2\<close>. With \<open>Content-Length\<close> last the
  request is parsed (result 0, method \<open>importKey\<close>). With \<open>Content-Length\<close> first,
  \<open>headlen\<close> is the offset of the end of that line, not of the header section; the
  buffer is longer than \<open>clen + 4 + headlen\<close> and \<open>parseRequest\<close> returns \<open>-1\<close>.
\<close>

theorem content_length_not_last_rejected:
  "length import_request_cl_first = length import_request_cl_last \<and>
   parseRequest example_env request_init import_request_cl_last
     (length import_request_cl_last) reply_init =
     Inr (0, reply_init\<lparr>json := Some ''{}'', jsonLen := 2, method := importKey\<rparr>) \<and>
   framing import_request_cl_first (length import_request_cl_first) = Inr (Some (- 1)) \<and>
   parseRequest example_env request_init import_request_cl_first
     (length import_request_cl_first) reply_init = Inr (- 1, reply_init)"
  by code_simp

text \<open>
  C5. With two keys stored, \<open>K - 2 = 8\<close>. An import request with nine keystores and
  nine passwords, each of which passes the pipeline, is not rejected:
  \<open>httpImportFromKeystore\<close> returns 0. (The loops admit up to \<open>MAXKeys\<close> plus the
  number of stored keys.)
\<close>

theorem import_beyond_capacity_accepted:
  "keystore_size example_store = 2 \<and>
   length (children (the (cJSON_GetObjectItemCaseSensitive (import_tree 9) ''keystores''))) = 9 \<and>
   length (children (the (cJSON_GetObjectItemCaseSensitive (import_tree 9) ''passwords''))) = 9 \<and>
   httpImportFromKeystore (example_env\<lparr>cJSON_Parse := parse_as (import_tree 9)\<rparr>) (Some body)
     example_store decryption_key type0 = Inr 0"
  by code_simp

text \<open>
  C6. A keystore whose key derivation is \<open>pbkdf2\<close> with \<open>dklen = 16\<close>:
  \<open>get_decryption_key_pbkdf2_params\<close> returns 0, not \<open>BADJSONFORMAT\<close>, and
  \<open>decryption_key\<close> is as it was before the call. The same holds for \<open>dklen = 32\<close>:
  no key is derived from the password.
\<close>

theorem pbkdf2_no_derivation:
  "get_decryption_key_encryption_type env (Some (pbkdf2_keystore 16)) type0 = (0, PBKDF2TYPE) \<and>
   get_decryption_key_pbkdf2_params env (Some (pbkdf2_keystore 16)) password decryption_key =
     (0, decryption_key) \<and>
   get_decryption_key_pbkdf2_params env (Some (pbkdf2_keystore 32)) password decryption_key =
     (0, decryption_key)"
  by code_simp

section \<open>Header matching\<close>








section \<open>Import requests that fail\<close>





text \<open>
  No path of the import handler writes to the key store: whatever an import request
  holds, the store after it is the store before it.
\<close>

lemma import_keeps_keystore:
  "method request = importKey \<Longrightarrow>
   dumpHttpResponse env buffer request ks decryption_key type0 = Inr (n, buffer', request', ks') \<Longrightarrow>
   ks' = ks"
  by (auto simp: dumpHttpResponse_def Let_def importKey_def sign_def upcheck_def getKeys_def
           split: sum.splits if_splits)



section \<open>The ListKeys response\<close>

declare digits.simps [simp del]

lemma cstr_id: "NUL \<notin> set s \<Longrightarrow> cstr s = s"
  by (auto simp: cstr_def)

lemma strcat_append: "NUL \<notin> set a \<Longrightarrow> NUL \<notin> set b \<Longrightarrow> strcat a b = a @ b"
  by (simp add: strcat_def cstr_id)

lemma strncat_append:
  "NUL \<notin> set a \<Longrightarrow> NUL \<notin> set b \<Longrightarrow> length b = n \<Longrightarrow> strncat a b n = a @ b"
  by (simp add: strncat_def cstr_id)

lemma strncpy_id: "NUL \<notin> set s \<Longrightarrow> length s = n \<Longrightarrow> strncpy s n = s"
  by (simp add: strncpy_def cstr_id)

lemma char_of_digit_not_NUL: "m < 10 \<Longrightarrow> char_of (48 + m :: nat) \<noteq> NUL"
proof
  assume m: "m < 10" and "char_of (48 + m) = NUL"
  then have "(of_char (char_of (48 + m)) :: nat) = of_char NUL" by simp
  with m show False by (simp add: NUL_def)
qed

lemma digits_no_NUL: "NUL \<notin> set (digits n)"
proof (induction n rule: digits.induct)
  case (1 n)
  show ?case
  proof (cases "n < 10")
    case True
    then show ?thesis
      using char_of_digit_not_NUL [of n] by (subst digits.simps) auto
  next
    case False
    have "n mod 10 < 10" by simp
    from char_of_digit_not_NUL [OF this] "1.IH" False show ?thesis
      by (subst digits.simps) auto
  qed
qed

lemma sprintf_d_no_NUL: "NUL \<notin> set (sprintf_d n)"
proof -
  have "CHR ''-'' \<noteq> NUL" by (simp add: NUL_def)
  then show ?thesis by (simp add: sprintf_d_def digits_no_NUL)
qed

lemma getKeysResponse_no_NUL: "NUL \<notin> set getKeysResponse"
  by (simp add: getKeysResponse_def CRLF_def CR_def LF_def NUL_def)

lemma copyKeys_loop_result:
  "i \<le> n \<Longrightarrow> length (publicKeys req) = 10 \<Longrightarrow>
   nKeys (copyKeys_loop buf n req i) = nKeys req + (n - i) \<and>
   length (publicKeys (copyKeys_loop buf n req i)) = 10 \<and>
   (\<forall>j. i \<le> j \<and> j < n \<and> j < 10 \<longrightarrow>
      publicKeys (copyKeys_loop buf n req i) ! j = strncpy (take 96 (drop (96 * j) buf)) 96) \<and>
   (\<forall>j. j < i \<longrightarrow> publicKeys (copyKeys_loop buf n req i) ! j = publicKeys req ! j)"
proof (induction buf n req i rule: copyKeys_loop.induct)
  case (1 buf n req i)
  show ?case
  proof (cases "i < n")
    case False
    then have "copyKeys_loop buf n req i = req" by (subst copyKeys_loop.simps) simp
    with False "1.prems" show ?thesis by auto
  next
    case True
    let ?req' = "req\<lparr>nKeys := nKeys req + 1,
        publicKeys := (publicKeys req)[i := strncpy (take 96 (drop (96 * i) buf)) 96]\<rparr>"
    have unfold: "copyKeys_loop buf n req i = copyKeys_loop buf n ?req' (i + 1)"
      using True by (subst copyKeys_loop.simps) simp
    have len: "length (publicKeys ?req') = 10" using "1.prems" by simp
    from True have le: "i + 1 \<le> n" by simp
    note IH = "1.IH" [OF True le len]
    show ?thesis
      unfolding unfold
    proof (intro conjI allI impI)
      show "nKeys (copyKeys_loop buf n ?req' (i + 1)) = nKeys req + (n - i)"
        using IH True by simp
      show "length (publicKeys (copyKeys_loop buf n ?req' (i + 1))) = 10"
        using IH by simp
    next
      fix j assume j: "i \<le> j \<and> j < n \<and> j < 10"
      show "publicKeys (copyKeys_loop buf n ?req' (i + 1)) ! j =
            strncpy (take 96 (drop (96 * j) buf)) 96"
      proof (cases "j = i")
        case False
        with j have "i + 1 \<le> j \<and> j < n \<and> j < 10" by simp
        with IH show ?thesis by blast
      next
        case True
        then have "j < i + 1" by simp
        with IH have "publicKeys (copyKeys_loop buf n ?req' (i + 1)) ! j = publicKeys ?req' ! j"
          by blast
        also have "\<dots> = strncpy (take 96 (drop (96 * j) buf)) 96"
          using True j "1.prems" by simp
        finally show ?thesis .
      qed
    next
      fix j assume j: "j < i"
      then have "j < i + 1" by simp
      with IH have "publicKeys (copyKeys_loop buf n ?req' (i + 1)) ! j = publicKeys ?req' ! j"
        by blast
      also have "\<dots> = publicKeys req ! j" using j by simp
      finally show "publicKeys (copyKeys_loop buf n ?req' (i + 1)) ! j = publicKeys req ! j" .
    qed
  qed
qed

lemma getkeys_row:
  assumes "keystore_wf ks" "j < keystore_size ks"
  shows "take 96 (drop (96 * j) (getkeys ks)) = stored_pk ks j"
proof -
  have "96 * j + 96 \<le> keystore_size ks * 96" using assms(2) by simp
  then show ?thesis
    by (simp add: getkeys_def stored_pk_def drop_take min_def)
qed

lemma stored_pk_length:
  assumes "keystore_wf ks" "j < keystore_size ks"
  shows "length (stored_pk ks j) = 96"
proof -
  have "96 * j + 96 \<le> 960" using assms by (simp add: keystore_wf_def)
  moreover have "length (public_keys_hex_store ks) = 960"
    using assms(1) by (simp add: keystore_wf_def)
  ultimately show ?thesis by (simp add: stored_pk_def)
qed

lemma stored_pk_no_NUL:
  assumes "keystore_wf ks" "j < keystore_size ks" "NUL \<notin> set (getkeys ks)"
  shows "NUL \<notin> set (stored_pk ks j)"
proof -
  have "set (take 96 (drop (96 * j) (getkeys ks))) \<subseteq> set (getkeys ks)"
    by (meson set_take_subset set_drop_subset subset_trans)
  with assms(3) getkeys_row [OF assms(1,2)] show ?thesis by auto
qed

lemma copyKeys_result:
  assumes "keystore_wf ks" "length (publicKeys request) = 10" "NUL \<notin> set (getkeys ks)"
  shows "nKeys (snd (copyKeys ks request)) = keystore_size ks \<and>
         (\<forall>j<keystore_size ks. publicKeys (snd (copyKeys ks request)) ! j = stored_pk ks j)"
proof (cases "keystore_size ks = 0")
  case True
  then show ?thesis by (simp add: copyKeys_def get_keystore_size_def)
next
  case False
  let ?n = "keystore_size ks"
  have n10: "?n \<le> 10" using assms(1) by (simp add: keystore_wf_def)
  have c: "snd (copyKeys ks request) = copyKeys_loop (getkeys ks) ?n (request\<lparr>nKeys := 0\<rparr>) 0"
    using False by (simp add: copyKeys_def get_keystore_size_def Let_def)
  have len: "length (publicKeys (request\<lparr>nKeys := 0\<rparr>)) = 10" using assms(2) by simp
  note r = copyKeys_loop_result [of 0 ?n "request\<lparr>nKeys := 0\<rparr>" "getkeys ks", OF _ len]
  show ?thesis
    unfolding c
  proof (intro conjI allI impI)
    show "nKeys (copyKeys_loop (getkeys ks) ?n (request\<lparr>nKeys := 0\<rparr>) 0) = ?n"
      using r by simp
  next
    fix j assume j: "j < ?n"
    with n10 have "0 \<le> j \<and> j < ?n \<and> j < 10" by simp
    with r have "publicKeys (copyKeys_loop (getkeys ks) ?n (request\<lparr>nKeys := 0\<rparr>) 0) ! j =
        strncpy (take 96 (drop (96 * j) (getkeys ks))) 96"
      by blast
    also have "\<dots> = stored_pk ks j"
      using getkeys_row [OF assms(1) j] stored_pk_length [OF assms(1) j]
        stored_pk_no_NUL [OF assms(1) j assms(3)]
      by (simp add: strncpy_id)
    finally show "publicKeys (copyKeys_loop (getkeys ks) ?n (request\<lparr>nKeys := 0\<rparr>) 0) ! j =
        stored_pk ks j" .
  qed
qed

lemma key_lines_no_NUL: "\<forall>k \<in> set keys. NUL \<notin> set k \<Longrightarrow> NUL \<notin> set (key_lines keys)"
  by (induction keys rule: key_lines.induct) (auto simp: DQUOTE_def LF_def NUL_def)

lemma key_lines_spec: "keys \<noteq> [] \<Longrightarrow> key_lines keys = spec_entries keys @ [LF]"
  by (induction keys rule: key_lines.induct) (simp_all add: spec_quoted_def)

lemma spec_body_key_lines: "spec_ListKeys_body keys = ''['' @ [LF] @ key_lines keys @ '']''"
  by (cases "keys = []") (simp_all add: spec_ListKeys_body_def key_lines_spec)

lemma key_lines_length:
  "\<forall>k \<in> set keys. length k = 96 \<Longrightarrow> keys \<noteq> [] \<Longrightarrow>
   length (key_lines keys) + 1 = 102 * length keys"
  by (induction keys rule: key_lines.induct) simp_all

lemma spec_body_length:
  assumes "\<forall>k \<in> set keys. length k = 96"
  shows "int (length (spec_ListKeys_body keys)) =
     (if keys = [] then 3 else 6 * int (length keys) - 1 + int (length keys) * 96 + 3)"
proof (cases "keys = []")
  case True
  then show ?thesis by (simp add: spec_ListKeys_body_def)
next
  case False
  from key_lines_length [OF assms False]
  have "length (key_lines keys) = 102 * length keys - 1" by simp
  moreover have "0 < length keys" using False by simp
  ultimately show ?thesis
    using False by (simp add: spec_body_key_lines) 
qed

lemma response_loop_result:
  "i \<le> nKeys req \<Longrightarrow> NUL \<notin> set b \<Longrightarrow>
   \<forall>j. i \<le> j \<and> j < nKeys req \<longrightarrow> NUL \<notin> set (publicKeys req ! j) \<and> length (publicKeys req ! j) = 96 \<Longrightarrow>
   getKeysResponseStr_loop req b i = b @ key_lines (map (\<lambda>j. publicKeys req ! j) [i..<nKeys req])"
proof (induction req b i rule: getKeysResponseStr_loop.induct)
  case (1 req b i)
  show ?case
  proof (cases "i < nKeys req")
    case False
    with "1.prems" show ?thesis by (subst getKeysResponseStr_loop.simps) simp
  next
    case True
    let ?k = "publicKeys req ! i"
    from True "1.prems" have k: "NUL \<notin> set ?k" "length ?k = 96" by simp_all
    have q: "NUL \<notin> set [DQUOTE, CHR ''0'', CHR ''x'']" "NUL \<notin> set [DQUOTE]" "NUL \<notin> set '',''"
      "NUL \<notin> set [LF]"
      by (simp_all add: DQUOTE_def LF_def NUL_def)
    let ?b1 = "b @ [DQUOTE, CHR ''0'', CHR ''x'']"
    let ?b2 = "?b1 @ ?k"
    let ?b3 = "?b2 @ [DQUOTE]"
    let ?b4 = "if i + 1 < nKeys req then ?b3 @ '','' else ?b3"
    let ?b5 = "?b4 @ [LF]"
    have b1: "strcat b [DQUOTE, CHR ''0'', CHR ''x''] = ?b1"
      using "1.prems"(2) q(1) by (rule strcat_append)
    have n1: "NUL \<notin> set ?b1" using "1.prems"(2) q by simp
    have b2: "strncat ?b1 ?k keySize = ?b2"
      using n1 k by (intro strncat_append) (simp_all add: keySize_def)
    have n2: "NUL \<notin> set ?b2" using n1 k by simp
    have b3: "strcat ?b2 [DQUOTE] = ?b3"
      using n2 q(2) by (rule strcat_append)
    have n3: "NUL \<notin> set ?b3" using n2 q by simp
    have b4: "(if i + 1 < nKeys req then strcat ?b3 '','' else ?b3) = ?b4"
      using strcat_append [OF n3 q(3)] by simp
    have n4: "NUL \<notin> set ?b4" using n3 q by simp
    have b5: "strcat ?b4 [LF] = ?b5"
      using n4 q(4) by (rule strcat_append)
    have n5: "NUL \<notin> set ?b5" using n4 q by simp
    have step: "getKeysResponseStr_loop req b i = getKeysResponseStr_loop req ?b5 (i + 1)"
      using True by (subst getKeysResponseStr_loop.simps) (simp only: b1 b2 b3 b4 b5 Let_def if_True)
    have rest: "\<forall>j. i + 1 \<le> j \<and> j < nKeys req \<longrightarrow>
        NUL \<notin> set (publicKeys req ! j) \<and> length (publicKeys req ! j) = 96"
      using "1.prems"(3) by simp
    from True have le: "i + 1 \<le> nKeys req" by simp
    have IH: "getKeysResponseStr_loop req ?b5 (i + 1) =
        ?b5 @ key_lines (map (\<lambda>j. publicKeys req ! j) [i + 1..<nKeys req])"
      using "1.IH" [OF True refl refl refl refl refl le, unfolded b1 b2 b3 b4 b5, OF n5 rest] .
    have split: "[i..<nKeys req] = i # [i + 1..<nKeys req]"
      using True by (simp add: upt_conv_Cons)
    show ?thesis
    proof (cases "i + 1 < nKeys req")
      case more: True
      then have "[i + 1..<nKeys req] = (i + 1) # [i + 2..<nKeys req]"
        by (simp add: upt_conv_Cons)
      then show ?thesis
        unfolding step IH split using more by simp
    next
      case last: False
      with le have "[i + 1..<nKeys req] = []" by simp
      then show ?thesis
        unfolding step IH split using last by simp
    qed
  qed
qed

lemma getKeysResponseStr_exact:
  assumes rows: "\<forall>j<nKeys req. NUL \<notin> set (publicKeys req ! j) \<and> length (publicKeys req ! j) = 96"
  shows "getKeysResponseStr req =
     (int (length (getKeysResponse @
                   sprintf_d (int (length (spec_ListKeys_body (map (\<lambda>j. publicKeys req ! j) [0..<nKeys req])))) @
                   [LF, LF] @ spec_ListKeys_body (map (\<lambda>j. publicKeys req ! j) [0..<nKeys req]))),
      getKeysResponse @
      sprintf_d (int (length (spec_ListKeys_body (map (\<lambda>j. publicKeys req ! j) [0..<nKeys req])))) @
      [LF, LF] @ spec_ListKeys_body (map (\<lambda>j. publicKeys req ! j) [0..<nKeys req]))"
proof -
  let ?keys = "map (\<lambda>j. publicKeys req ! j) [0..<nKeys req]"
  have keys96: "\<forall>k \<in> set ?keys. length k = 96" using rows by simp
  have keysN: "\<forall>k \<in> set ?keys. NUL \<notin> set k" using rows by simp
  have size: "jsonKeysSize req = int (length (spec_ListKeys_body ?keys))"
    unfolding spec_body_length [OF keys96] by (simp add: jsonKeysSize_def keySize_def)
  let ?n = "sprintf_d (int (length (spec_ListKeys_body ?keys)))"
  have q: "NUL \<notin> set [LF, LF, CHR ''['', LF]" "NUL \<notin> set '']''"
    by (simp_all add: LF_def NUL_def)
  have b0: "strcpy getKeysResponse = getKeysResponse"
    by (simp add: strcpy_def cstr_id getKeysResponse_no_NUL)
  have b1: "strcat getKeysResponse ?n = getKeysResponse @ ?n"
    by (rule strcat_append [OF getKeysResponse_no_NUL sprintf_d_no_NUL])
  have n1: "NUL \<notin> set (getKeysResponse @ ?n)"
    using getKeysResponse_no_NUL sprintf_d_no_NUL by simp
  have b2: "strcat (getKeysResponse @ ?n) [LF, LF, CHR ''['', LF] =
      (getKeysResponse @ ?n) @ [LF, LF, CHR ''['', LF]"
    by (rule strcat_append [OF n1 q(1)])
  have n2: "NUL \<notin> set ((getKeysResponse @ ?n) @ [LF, LF, CHR ''['', LF])"
    using n1 q by simp
  have b3: "getKeysResponseStr_loop req ((getKeysResponse @ ?n) @ [LF, LF, CHR ''['', LF]) 0 =
      ((getKeysResponse @ ?n) @ [LF, LF, CHR ''['', LF]) @ key_lines ?keys"
    using rows by (intro response_loop_result n2) simp_all
  have n3: "NUL \<notin> set (((getKeysResponse @ ?n) @ [LF, LF, CHR ''['', LF]) @ key_lines ?keys)"
    using n2 key_lines_no_NUL [OF keysN] by simp
  have b4: "strcat (((getKeysResponse @ ?n) @ [LF, LF, CHR ''['', LF]) @ key_lines ?keys) '']'' =
      (((getKeysResponse @ ?n) @ [LF, LF, CHR ''['', LF]) @ key_lines ?keys) @ '']''"
    by (rule strcat_append [OF n3 q(2)])
  have n4: "NUL \<notin> set ((((getKeysResponse @ ?n) @ [LF, LF, CHR ''['', LF]) @ key_lines ?keys) @ '']'')"
    using n3 q by simp
  have resp: "(((getKeysResponse @ ?n) @ [LF, LF, CHR ''['', LF]) @ key_lines ?keys) @ '']'' =
      getKeysResponse @ ?n @ [LF, LF] @ spec_ListKeys_body ?keys"
    by (simp add: spec_body_key_lines)
  have len: "strlen (getKeysResponse @ ?n @ [LF, LF] @ spec_ListKeys_body ?keys) =
      length (getKeysResponse @ ?n @ [LF, LF] @ spec_ListKeys_body ?keys)"
  proof -
    from n4 have "NUL \<notin> set (getKeysResponse @ ?n @ [LF, LF] @ spec_ListKeys_body ?keys)"
      unfolding resp .
    from cstr_id [OF this] show ?thesis by (simp only: strlen_def)
  qed
  show ?thesis
    unfolding getKeysResponseStr_def Let_def size b0 b1 b2 b3 b4 resp by (simp only: len)
qed

text \<open>
  C9. For a well-formed key store with \<open>n \<le> 10\<close> keys whose stored characters are not
  \<open>NUL\<close>, the ListKeys response is the status line and content type, then
  \<open>Content-Length: \<close> with the decimal length of the body, two line feeds, and the
  body in exactly the form of the specification: \<open>[\\n"0x<hex1>",\\n...\\n]\<close> with a
  comma only between entries, \<open>[\\n]\<close> when there is no key. The return value is the
  length of the response, and the key store is unchanged.
\<close>

theorem ListKeys_response_exact:
  assumes "keystore_wf ks" and "length (publicKeys request) = 10"
    and "NUL \<notin> set (getkeys ks)" and "method request = getKeys"
  shows "dumpHttpResponse env buffer request ks decryption_key type0 =
           Inr (int (length
                  (getKeysResponse @
                   sprintf_d (int (length (spec_ListKeys_body
                                             (map (stored_pk ks) [0..<keystore_size ks])))) @
                   [LF, LF] @ spec_ListKeys_body (map (stored_pk ks) [0..<keystore_size ks]))),
                getKeysResponse @
                sprintf_d (int (length (spec_ListKeys_body
                                          (map (stored_pk ks) [0..<keystore_size ks])))) @
                [LF, LF] @ spec_ListKeys_body (map (stored_pk ks) [0..<keystore_size ks]),
                snd (copyKeys ks request), ks)"
proof -
  let ?req = "snd (copyKeys ks request)"
  note c = copyKeys_result [OF assms(1-3)]
  have rows: "\<forall>j<nKeys ?req. NUL \<notin> set (publicKeys ?req ! j) \<and> length (publicKeys ?req ! j) = 96"
    using c stored_pk_no_NUL [OF assms(1) _ assms(3)] stored_pk_length [OF assms(1)] by simp
  have keys: "map (\<lambda>j. publicKeys ?req ! j) [0..<nKeys ?req] = map (stored_pk ks) [0..<keystore_size ks]"
    using c by simp
  have d: "dumpHttpResponse env buffer request ks decryption_key type0 =
      Inr (fst (getKeysResponseStr ?req), snd (getKeysResponseStr ?req), ?req, ks)"
    using assms(4)
    by (simp add: dumpHttpResponse_def getKeys_def sign_def upcheck_def split_beta)
  show ?thesis
    unfolding d getKeysResponseStr_exact [OF rows] keys by simp
qed

theorem ListKeys_response_exact_witness:
  "keystore_wf example_store \<and> NUL \<notin> set (getkeys example_store) \<and>
   dumpHttpResponse example_env [] (reply_init\<lparr>method := getKeys\<rparr>) example_store [] 0 =
     Inr (276,
          getKeysResponse @ ''206'' @ [LF, LF] @
          ''['' @ [LF] @
          [DQUOTE] @ ''0x'' @ replicate 96 CHR ''a'' @ [DQUOTE] @ '','' @ [LF] @
          [DQUOTE] @ ''0x'' @ replicate 96 CHR ''b'' @ [DQUOTE] @ [LF] @ '']'',
          snd (copyKeys example_store (reply_init\<lparr>method := getKeys\<rparr>)), example_store)"
proof -
  have wf: "keystore_wf example_store"
    by (simp add: keystore_wf_def example_store_def zero_scalar_def list_all_iff)
  have len: "length (publicKeys (reply_init\<lparr>method := getKeys\<rparr>)) = 10"
    by (simp add: reply_init_def)
  have nn: "NUL \<notin> set (getkeys example_store)"
    by (simp add: getkeys_def example_store_def NUL_def)
  have m: "method (reply_init\<lparr>method := getKeys\<rparr>) = getKeys" by simp
  have keys: "map (stored_pk example_store) [0..<keystore_size example_store] =
      [replicate 96 CHR ''a'', replicate 96 CHR ''b'']"
    by code_simp
  have body: "spec_ListKeys_body [replicate 96 CHR ''a'', replicate 96 CHR ''b''] =
      ''['' @ [LF] @
     [DQUOTE] @ ''0x'' @ replicate 96 CHR ''a'' @ [DQUOTE] @ '','' @ [LF] @
     [DQUOTE] @ ''0x'' @ replicate 96 CHR ''b'' @ [DQUOTE] @ [LF] @ '']''"
    by (simp add: spec_ListKeys_body_def spec_quoted_def)
  have n: "sprintf_d 206 = ''206''"
    by code_simp
  have total: "int (length (getKeysResponse @ ''206'' @ [LF, LF] @
     ''['' @ [LF] @
     [DQUOTE] @ ''0x'' @ replicate 96 CHR ''a'' @ [DQUOTE] @ '','' @ [LF] @
     [DQUOTE] @ ''0x'' @ replicate 96 CHR ''b'' @ [DQUOTE] @ [LF] @ '']'')) = 276"
    by (simp add: getKeysResponse_def CRLF_def)
  from ListKeys_response_exact [OF wf len nn m, of example_env "[]" "[]" 0, unfolded keys body]
    wf nn total
  show ?thesis by (simp add: n)
qed

end
